theory Spec2Isabelle
  imports Main
begin

section \<open>Data model (lib/types/auth.ts, lib/types/organization.ts)\<close>

text \<open>
  Identifiers, tokens and e-mail addresses are strings, as in the TypeScript types; a
  string is the list of the bytes of its text.
  Time stamps (\<open>expires_at\<close>, \<open>created_at\<close>, the clock) are integers (milliseconds).
  Columns that no modelled function reads (\<open>joined_at\<close>, the organization's name) are
  left out.
\<close>

datatype OrganizationRole = Owner | Admin | User | Viewer

datatype InvitationStatus = Pending | Accepted | Expired

record OrganizationMember =
  m_id :: string
  m_organization_id :: string
  m_user_id :: string
  m_role :: OrganizationRole

record OrganizationInvitation =
  i_id :: string
  i_organization_id :: string
  i_inviter_id :: string
  i_invitee_email :: string
  i_role :: OrganizationRole
  i_status :: InvitationStatus
  i_token :: string
  i_expires_at :: int
  i_created_at :: int

record UserProfile =
  u_id :: string
  u_email :: string

text \<open>The user returned by the identity provider: \<open>user.id\<close> and the optional \<open>user.email\<close>.\<close>

record AuthUser =
  a_id :: string
  a_email :: "string option"

text \<open>The three tables the actions read and write.\<close>

record db =
  organization_members :: "OrganizationMember list"
  invitations :: "OrganizationInvitation list"
  users :: "UserProfile list"

text \<open>The fields of the submitted form that the member actions read; \<open>None\<close> is a missing field.\<close>

record FormData =
  fd_email :: "string option"
  fd_role :: "string option"

section \<open>Results and error messages\<close>

text \<open>
  Every action returns \<open>{ error: string | null, ... }\<close>. Each message of the source is one
  constructor; \<open>message\<close> gives its text. Two texts come from outside the source and
  stand for any such text: the schema library's message for a role outside the enumeration
  (\<open>InvalidRole\<close>) and the storage layer's message inside \<open>MarkAcceptedFailed\<close>.
\<close>

datatype err =
    OnlyOwnersAdminsInvite | NoAccess | InvalidEmail | InvalidRole | AdminsCannotInviteAdmins
  | UserAlreadyMember | PendingInvitationExists | CreateInvitationFailed | Unexpected
  | MemberNotFound | NotAMember | TargetNotAMember | OrgAlreadyHasOwner
  | AdminsCannotModify | AdminsCannotAssign | NoPermissionChangeRoles
  | UseTransferOwnership | UpdateRoleFailed
  | OwnersMustTransfer | CannotRemoveOwner | AdminsCannotRemove | NoPermissionRemove
  | RemoveFailed
  | OnlyOwnersTransfer | CannotTransferSelf | OwnerRecordNotFound | TransferFailed
  | UserEmailNotFound | InvitationNotFoundOrExpired | InvitationExpired
  | YouAreAlreadyMember | AcceptFailed | MarkAcceptedFailed | MarkAcceptedNoRows
  | InvitationNotFoundOrUsed | DifferentEmail | InvitationNotFound | DeclineFailed
  | NoPermissionCancel | CancelFailed

fun message :: "err \<Rightarrow> string" where
  "message OnlyOwnersAdminsInvite = ''Only owners and admins can invite members''"
| "message NoAccess = ''You don't have access to this organization''"
| "message InvalidEmail = ''Invalid email address''"
| "message InvalidRole = ''Invalid enum value''"
| "message AdminsCannotInviteAdmins =
     ''Admins cannot invite other admins. Only owners can invite admins.''"
| "message UserAlreadyMember = ''User is already a member of this organization''"
| "message PendingInvitationExists = ''There is already a pending invitation for this email''"
| "message CreateInvitationFailed = ''Failed to create invitation. Please try again.''"
| "message Unexpected = ''An unexpected error occurred. Please try again later.''"
| "message MemberNotFound = ''Member not found''"
| "message NotAMember = ''You are not a member of this organization''"
| "message TargetNotAMember = ''Target user is not a member of this organization''"
| "message OrgAlreadyHasOwner = ''Organization already has an owner''"
| "message AdminsCannotModify = ''Admins cannot modify owners or other admins''"
| "message AdminsCannotAssign = ''Admins cannot assign owner or admin roles''"
| "message NoPermissionChangeRoles = ''You don't have permission to change member roles''"
| "message UseTransferOwnership = ''Use transfer ownership to change a member to owner''"
| "message UpdateRoleFailed = ''Failed to update member role. Please try again.''"
| "message OwnersMustTransfer =
     ''Owners must transfer ownership before leaving the organization''"
| "message CannotRemoveOwner = ''Cannot remove the owner. Transfer ownership first.''"
| "message AdminsCannotRemove = ''Admins cannot remove owners or other admins''"
| "message NoPermissionRemove = ''You don't have permission to remove members''"
| "message RemoveFailed = ''Failed to remove member. Please try again.''"
| "message OnlyOwnersTransfer = ''Only owners can transfer ownership''"
| "message CannotTransferSelf = ''Cannot transfer ownership to yourself''"
| "message OwnerRecordNotFound = ''Owner member record not found''"
| "message TransferFailed = ''Failed to transfer ownership. Please try again.''"
| "message UserEmailNotFound = ''User email not found''"
| "message InvitationNotFoundOrExpired = ''Invitation not found or has expired''"
| "message InvitationExpired = ''This invitation has expired''"
| "message YouAreAlreadyMember = ''You are already a member of this organization''"
| "message AcceptFailed = ''Failed to accept invitation. Please try again.''"
| "message MarkAcceptedFailed =
     ''Failed to mark invitation as accepted: Unknown error. Please contact support.''"
| "message MarkAcceptedNoRows =
     ''Failed to mark invitation as accepted. No rows were updated. Please contact support.''"
| "message InvitationNotFoundOrUsed = ''Invitation not found or has already been used''"
| "message DifferentEmail = ''This invitation was sent to a different email address''"
| "message InvitationNotFound = ''Invitation not found''"
| "message DeclineFailed = ''Failed to decline invitation. Please try again.''"
| "message NoPermissionCancel = ''You don't have permission to cancel this invitation''"
| "message CancelFailed = ''Failed to cancel invitation. Please try again.''"

text \<open>The tagged result of the permission checks, \<open>{ canX: boolean; reason?: string }\<close>:
  every denial of the source carries a reason.\<close>

datatype decision = Allow | Deny err

text \<open>The result of the two accept actions, \<open>{ error, organizationId? }\<close>.\<close>

record accept_result =
  r_error :: "err option"
  r_organizationId :: "string option"

section \<open>The storage layer\<close>

text \<open>
  \<open>.single()\<close> yields the row when the query matches exactly one row, and an error (no data)
  when it matches none or several.
\<close>

definition single :: "'a list \<Rightarrow> 'a option" where
  "single rows = (case rows of [r] \<Rightarrow> Some r | _ \<Rightarrow> None)"

text \<open>
  A write (insert, update, delete) may be rejected by the storage layer: a constraint such as
  the unique owner index, a policy, a lost connection. The outcomes are part of the
  environment: \<open>fault fs n\<close> says that the \<open>n\<close>-th write an action issues (counted from 0
  along the path it takes) returns an error; \<open>fs = []\<close> is the run in which every write
  succeeds. A rejected write leaves its table as it was. Queries are answered from the tables.
\<close>

definition fault :: "bool list \<Rightarrow> nat \<Rightarrow> bool" where
  "fault fs n = (n < length fs \<and> fs ! n)"

text \<open>\<open>update({ role }).eq("id", memberId).eq("organization_id", organizationId)\<close>\<close>

definition update_member_role ::
  "string \<Rightarrow> string \<Rightarrow> OrganizationRole \<Rightarrow> OrganizationMember list \<Rightarrow> OrganizationMember list" where
  "update_member_role memberId organizationId r ms =
     map (\<lambda>m. if m_id m = memberId \<and> m_organization_id m = organizationId
              then m\<lparr>m_role := r\<rparr> else m) ms"

text \<open>\<open>select("role").eq("organization_id", ...).eq("user_id", ...).single()\<close>\<close>

definition member_row :: "db \<Rightarrow> string \<Rightarrow> string \<Rightarrow> OrganizationMember option" where
  "member_row d organizationId userId =
     single [m \<leftarrow> organization_members d.
               m_organization_id m = organizationId \<and> m_user_id m = userId]"

text \<open>\<open>select(...).eq("id", memberId).eq("organization_id", organizationId).single()\<close>\<close>

definition member_by_id :: "db \<Rightarrow> string \<Rightarrow> string \<Rightarrow> OrganizationMember option" where
  "member_by_id d memberId organizationId =
     single [m \<leftarrow> organization_members d.
               m_id m = memberId \<and> m_organization_id m = organizationId]"

section \<open>Permission checks (lib/utils/permissions.ts)\<close>

definition isOwner :: "db \<Rightarrow> string \<Rightarrow> string \<Rightarrow> bool" where
  "isOwner d userId organizationId =
     (case single [m \<leftarrow> organization_members d.
                     m_organization_id m = organizationId \<and> m_user_id m = userId
                     \<and> m_role m = Owner] of
        None \<Rightarrow> False
      | Some data \<Rightarrow> m_role data = Owner)"

definition isAdminOrOwner :: "db \<Rightarrow> string \<Rightarrow> string \<Rightarrow> bool" where
  "isAdminOrOwner d userId organizationId =
     (case single [m \<leftarrow> organization_members d.
                     m_organization_id m = organizationId \<and> m_user_id m = userId
                     \<and> (m_role m = Owner \<or> m_role m = Admin)] of
        None \<Rightarrow> False
      | Some data \<Rightarrow> m_role data = Owner \<or> m_role data = Admin)"

definition canInviteMembers :: "db \<Rightarrow> string \<Rightarrow> string \<Rightarrow> bool" where
  "canInviteMembers d userId organizationId = isAdminOrOwner d userId organizationId"

definition isMember :: "db \<Rightarrow> string \<Rightarrow> string \<Rightarrow> bool" where
  "isMember d userId organizationId = (member_row d organizationId userId \<noteq> None)"

definition canChangeRole ::
  "db \<Rightarrow> string \<Rightarrow> string \<Rightarrow> string \<Rightarrow> OrganizationRole \<Rightarrow> decision" where
  "canChangeRole d userId organizationId targetUserId newRole =
     (case member_row d organizationId userId of
        None \<Rightarrow> Deny NotAMember
      | Some currentUserMember \<Rightarrow>
          (case member_row d organizationId targetUserId of
             None \<Rightarrow> Deny TargetNotAMember
           | Some targetMember \<Rightarrow>
               (let currentUserRole = m_role currentUserMember;
                    targetUserRole = m_role targetMember
                in if currentUserRole = Owner then
                     (if targetUserRole = Owner \<and> newRole \<noteq> Owner then Allow
                      else if targetUserRole = Owner \<and> newRole = Owner
                        then Deny OrgAlreadyHasOwner
                      else Allow)
                   else if currentUserRole = Admin then
                     (if targetUserRole = Owner \<or> targetUserRole = Admin
                        then Deny AdminsCannotModify
                      else if newRole = Owner \<or> newRole = Admin
                        then Deny AdminsCannotAssign
                      else Allow)
                   else Deny NoPermissionChangeRoles)))"

definition canRemoveMember :: "db \<Rightarrow> string \<Rightarrow> string \<Rightarrow> string \<Rightarrow> decision" where
  "canRemoveMember d userId organizationId targetUserId =
     (if userId = targetUserId then
        (if isOwner d userId organizationId then Deny OwnersMustTransfer else Allow)
      else
        (case member_row d organizationId userId of
           None \<Rightarrow> Deny NotAMember
         | Some currentUserMember \<Rightarrow>
             (case member_row d organizationId targetUserId of
                None \<Rightarrow> Deny TargetNotAMember
              | Some targetMember \<Rightarrow>
                  (let currentUserRole = m_role currentUserMember;
                       targetUserRole = m_role targetMember
                   in if currentUserRole = Owner then
                        (if targetUserRole = Owner then Deny CannotRemoveOwner else Allow)
                      else if currentUserRole = Admin then
                        (if targetUserRole = Owner \<or> targetUserRole = Admin
                           then Deny AdminsCannotRemove
                         else Allow)
                      else Deny NoPermissionRemove))))"

definition canTransferOwnership :: "db \<Rightarrow> string \<Rightarrow> string \<Rightarrow> string \<Rightarrow> decision" where
  "canTransferOwnership d userId organizationId targetUserId =
     (if \<not> isOwner d userId organizationId then Deny OnlyOwnersTransfer
      else if userId = targetUserId then Deny CannotTransferSelf
      else (case member_row d organizationId targetUserId of
              None \<Rightarrow> Deny TargetNotAMember
            | Some targetMember \<Rightarrow> Allow))"

section \<open>Member actions (actions/members.ts)\<close>

subsection \<open>Input normalisation and validation\<close>

text \<open>
  The actions call four functions of the platform that are not part of the repository:
  \<open>String.prototype.toLowerCase\<close> and \<open>String.prototype.trim\<close> (both aware of Unicode),
  the schema library's \<open>z.string().email()\<close> check, which tests its argument and does not
  change it, and the calendar arithmetic \<open>expiresAt.setDate(expiresAt.getDate() + 7)\<close>,
  seven calendar days after the clock in the server's time zone. They are parameters of
  the model: every theorem holds for whatever these functions are.
\<close>

record platform =
  toLowerCase :: "string \<Rightarrow> string"
  trim :: "string \<Rightarrow> string"
  is_email :: "string \<Rightarrow> bool"
  add_seven_days :: "int \<Rightarrow> int"

text \<open>The role names of \<open>OrganizationRole\<close>.\<close>

definition parse_role :: "string \<Rightarrow> OrganizationRole option" where
  "parse_role s =
     (if s = ''owner'' then Some Owner
      else if s = ''admin'' then Some Admin
      else if s = ''user'' then Some User
      else if s = ''viewer'' then Some Viewer
      else None)"

text \<open>\<open>inviteMemberSchema.role = z.enum(["admin", "user", "viewer"])\<close>\<close>

definition inviteMemberSchema_role :: "string option \<Rightarrow> OrganizationRole option" where
  "inviteMemberSchema_role field =
     (case field of
        None \<Rightarrow> None
      | Some s \<Rightarrow> (case parse_role s of
                    None \<Rightarrow> None
                  | Some r \<Rightarrow> if r = Owner then None else Some r))"

text \<open>\<open>changeRoleSchema.role = z.enum(["owner", "admin", "user", "viewer"])\<close>\<close>

definition changeRoleSchema_role :: "string option \<Rightarrow> OrganizationRole option" where
  "changeRoleSchema_role field = (case field of None \<Rightarrow> None | Some s \<Rightarrow> parse_role s)"

subsection \<open>inviteMember\<close>

text \<open>
  \<open>new_id\<close> and \<open>new_token\<close> are the column defaults the storage layer generates for the
  inserted row, \<open>now\<close> the clock. The notification e-mail is sent after the insert and its
  failure is only logged.
\<close>

definition inviteMember ::
  "platform \<Rightarrow> bool list \<Rightarrow> string \<Rightarrow> string \<Rightarrow> int \<Rightarrow> AuthUser \<Rightarrow> string \<Rightarrow> FormData
     \<Rightarrow> db \<Rightarrow> (err + string) \<times> db" where
  "inviteMember env fs new_id new_token now user organizationId formData d =
     (if \<not> canInviteMembers d (a_id user) organizationId then (Inl OnlyOwnersAdminsInvite, d)
      else if \<not> isMember d (a_id user) organizationId then (Inl NoAccess, d)
      else
        (case fd_email formData of
           None \<Rightarrow> (Inl Unexpected, d)
         | Some email \<Rightarrow>
             (let data_email = trim env (toLowerCase env email) in
              if \<not> is_email env data_email then (Inl InvalidEmail, d)
              else
                (case inviteMemberSchema_role (fd_role formData) of
                   None \<Rightarrow> (Inl InvalidRole, d)
                 | Some data_role \<Rightarrow>
                     if map_option m_role (member_row d organizationId (a_id user)) = Some Admin
                        \<and> data_role = Admin
                     then (Inl AdminsCannotInviteAdmins, d)
                     else if (case single [u \<leftarrow> users d. u_email u = data_email] of
                                None \<Rightarrow> False
                              | Some existingUser \<Rightarrow>
                                  member_row d organizationId (u_id existingUser) \<noteq> None)
                     then (Inl UserAlreadyMember, d)
                     else if single [i \<leftarrow> invitations d.
                                       i_organization_id i = organizationId
                                       \<and> i_invitee_email i = data_email
                                       \<and> i_status i = Pending] \<noteq> None
                     then (Inl PendingInvitationExists, d)
                     else if fault fs 0 then (Inl CreateInvitationFailed, d)
                     else
                       (Inr new_id,
                        d\<lparr>invitations := invitations d @
                            [\<lparr>i_id = new_id, i_organization_id = organizationId,
                              i_inviter_id = a_id user, i_invitee_email = data_email,
                              i_role = data_role, i_status = Pending, i_token = new_token,
                              i_expires_at = add_seven_days env now, i_created_at = now\<rparr>]\<rparr>)))))"

subsection \<open>changeMemberRole\<close>

definition changeMemberRole ::
  "bool list \<Rightarrow> AuthUser \<Rightarrow> string \<Rightarrow> string \<Rightarrow> FormData \<Rightarrow> db \<Rightarrow> err option \<times> db" where
  "changeMemberRole fs user organizationId memberId formData d =
     (if \<not> isMember d (a_id user) organizationId then (Some NoAccess, d)
      else
        (case member_by_id d memberId organizationId of
           None \<Rightarrow> (Some MemberNotFound, d)
         | Some member \<Rightarrow>
             (case changeRoleSchema_role (fd_role formData) of
                None \<Rightarrow> (Some InvalidRole, d)
              | Some data_role \<Rightarrow>
                  (case canChangeRole d (a_id user) organizationId (m_user_id member) data_role of
                     Deny reason \<Rightarrow> (Some reason, d)
                   | Allow \<Rightarrow>
                       if data_role = Owner then (Some UseTransferOwnership, d)
                       else if fault fs 0 then (Some UpdateRoleFailed, d)
                       else
                         (None,
                          d\<lparr>organization_members :=
                              update_member_role memberId organizationId data_role
                                (organization_members d)\<rparr>)))))"

subsection \<open>removeMember\<close>

text \<open>
  After the delete, the action re-writes \<open>accepted\<close> into the invitations of the removed
  member's e-mail that are accepted:
  \<open>update({ status: "accepted" }).eq("organization_id", ...).eq("invitee_email", ...)
  .in("id", ids)\<close>. \<open>if (memberUser?.email)\<close> skips this for a missing profile and for an
  empty e-mail.
\<close>

definition protect_accepted ::
  "string \<Rightarrow> string \<Rightarrow> string list \<Rightarrow> OrganizationInvitation list
     \<Rightarrow> OrganizationInvitation list" where
  "protect_accepted organizationId email ids invs =
     map (\<lambda>i. if i_organization_id i = organizationId \<and> i_invitee_email i = email
                 \<and> i_id i \<in> set ids
              then i\<lparr>i_status := Accepted\<rparr> else i) invs"

definition removeMember ::
  "bool list \<Rightarrow> AuthUser \<Rightarrow> string \<Rightarrow> string \<Rightarrow> db \<Rightarrow> err option \<times> db" where
  "removeMember fs user organizationId memberId d =
     (if \<not> isMember d (a_id user) organizationId then (Some NoAccess, d)
      else
        (case member_by_id d memberId organizationId of
           None \<Rightarrow> (Some MemberNotFound, d)
         | Some member \<Rightarrow>
             (case canRemoveMember d (a_id user) organizationId (m_user_id member) of
                Deny reason \<Rightarrow> (Some reason, d)
              | Allow \<Rightarrow>
                  (let memberUser = single [u \<leftarrow> users d. u_id u = m_user_id member] in
                   if fault fs 0 then (Some RemoveFailed, d)
                   else
                     (let d1 = d\<lparr>organization_members :=
                                   [m \<leftarrow> organization_members d.
                                      \<not> (m_id m = memberId
                                         \<and> m_organization_id m = organizationId)]\<rparr>
                      in case memberUser of
                           None \<Rightarrow> (None, d1)
                         | Some mu \<Rightarrow>
                             if u_email mu = [] then (None, d1)
                             else
                               (let acceptedInvitations =
                                      [i \<leftarrow> invitations d1.
                                         i_organization_id i = organizationId
                                         \<and> i_invitee_email i = u_email mu
                                         \<and> i_status i = Accepted]
                                in if acceptedInvitations \<noteq> [] \<and> \<not> fault fs 1 then
                                     (None,
                                      d1\<lparr>invitations :=
                                          protect_accepted organizationId (u_email mu)
                                            (map i_id acceptedInvitations)
                                            (invitations d1)\<rparr>)
                                   else (None, d1)))))))"

subsection \<open>transferOwnership\<close>

text \<open>
  The writes the action issues, in order, are returned with the result, so that the order
  of the two-phase swap can be stated.
\<close>

datatype db_write = UpdateMemberRole string string OrganizationRole

definition transferOwnership ::
  "bool list \<Rightarrow> AuthUser \<Rightarrow> string \<Rightarrow> string \<Rightarrow> db \<Rightarrow> err option \<times> db \<times> db_write list" where
  "transferOwnership fs user organizationId newOwnerMemberId d =
     (if \<not> isMember d (a_id user) organizationId then (Some NoAccess, d, [])
      else
        (case member_by_id d newOwnerMemberId organizationId of
           None \<Rightarrow> (Some MemberNotFound, d, [])
         | Some newOwnerMember \<Rightarrow>
             (case canTransferOwnership d (a_id user) organizationId (m_user_id newOwnerMember) of
                Deny reason \<Rightarrow> (Some reason, d, [])
              | Allow \<Rightarrow>
                  (case single [m \<leftarrow> organization_members d.
                                  m_organization_id m = organizationId
                                  \<and> m_user_id m = a_id user \<and> m_role m = Owner] of
                     None \<Rightarrow> (Some OwnerRecordNotFound, d, [])
                   | Some oldOwnerMember \<Rightarrow>
                       (let w1 = UpdateMemberRole (m_id oldOwnerMember) organizationId Admin;
                            w2 = UpdateMemberRole newOwnerMemberId organizationId Owner;
                            w3 = UpdateMemberRole (m_id oldOwnerMember) organizationId Owner
                        in if fault fs 0 then (Some TransferFailed, d, [w1])
                           else
                             (let d1 = d\<lparr>organization_members :=
                                           update_member_role (m_id oldOwnerMember)
                                             organizationId Admin (organization_members d)\<rparr>
                              in if fault fs 1 then
                                   (Some TransferFailed,
                                    (if fault fs 2 then d1
                                     else d1\<lparr>organization_members :=
                                              update_member_role (m_id oldOwnerMember)
                                                organizationId Owner
                                                (organization_members d1)\<rparr>),
                                    [w1, w2, w3])
                                 else
                                   (None,
                                    d1\<lparr>organization_members :=
                                        update_member_role newOwnerMemberId organizationId
                                          Owner (organization_members d1)\<rparr>,
                                    [w1, w2])))))))"

section \<open>Invitation actions (actions/invitations.ts)\<close>

text \<open>\<open>update({ status }).eq("id", invitationId)\<close> and \<open>update({ status }).eq("token", token)\<close>\<close>

definition set_status_by_id ::
  "string \<Rightarrow> InvitationStatus \<Rightarrow> OrganizationInvitation list \<Rightarrow> OrganizationInvitation list" where
  "set_status_by_id invitationId st invs =
     map (\<lambda>i. if i_id i = invitationId then i\<lparr>i_status := st\<rparr> else i) invs"

definition set_status_by_token ::
  "string \<Rightarrow> InvitationStatus \<Rightarrow> OrganizationInvitation list \<Rightarrow> OrganizationInvitation list" where
  "set_status_by_token token st invs =
     map (\<lambda>i. if i_token i = token then i\<lparr>i_status := st\<rparr> else i) invs"

text \<open>The sweep:
  \<open>update({ status: "accepted" }).eq("organization_id", ...).eq("invitee_email", user.email)
  .eq("status", "pending")\<close>\<close>

definition accept_pending ::
  "string \<Rightarrow> string \<Rightarrow> OrganizationInvitation list \<Rightarrow> OrganizationInvitation list" where
  "accept_pending organizationId email invs =
     map (\<lambda>i. if i_organization_id i = organizationId \<and> i_invitee_email i = email
                 \<and> i_status i = Pending
              then i\<lparr>i_status := Accepted\<rparr> else i) invs"

subsection \<open>getPendingInvitations\<close>

text \<open>The query orders by \<open>created_at\<close>, newest first. \<open>user\<close> is \<open>None\<close> when nobody is
  signed in.\<close>

definition getPendingInvitations ::
  "int \<Rightarrow> AuthUser option \<Rightarrow> db \<Rightarrow> OrganizationInvitation list" where
  "getPendingInvitations now user d =
     (case user of
        None \<Rightarrow> []
      | Some u \<Rightarrow>
          (case a_email u of
             None \<Rightarrow> []
           | Some email \<Rightarrow>
               if email = [] then []
               else
                 (let data = rev (sort_key i_created_at
                                    [i \<leftarrow> invitations d.
                                       i_invitee_email i = email \<and> i_status i = Pending
                                       \<and> now < i_expires_at i])
                  in if data \<noteq> [] then
                       (let organizationIds = map i_organization_id data;
                            memberOrgIds =
                              map m_organization_id
                                [m \<leftarrow> organization_members d.
                                   m_user_id m = a_id u
                                   \<and> m_organization_id m \<in> set organizationIds];
                            acceptedOrgIds =
                              map i_organization_id
                                [i \<leftarrow> invitations d.
                                   i_invitee_email i = email \<and> i_status i = Accepted
                                   \<and> i_organization_id i \<in> set organizationIds]
                        in [inv \<leftarrow> data.
                              i_organization_id inv \<notin> set memberOrgIds
                              \<and> i_organization_id inv \<notin> set acceptedOrgIds])
                     else data)))"

subsection \<open>acceptInvitation (by invitation id)\<close>

text \<open>\<open>new_member_id\<close> is the id the storage layer generates for the inserted membership.\<close>

definition acceptInvitation ::
  "bool list \<Rightarrow> string \<Rightarrow> int \<Rightarrow> AuthUser \<Rightarrow> string \<Rightarrow> db \<Rightarrow> accept_result \<times> db" where
  "acceptInvitation fs new_member_id now user invitationId d =
     (case a_email user of
        None \<Rightarrow> (\<lparr>r_error = Some UserEmailNotFound, r_organizationId = None\<rparr>, d)
      | Some email \<Rightarrow>
          if email = [] then (\<lparr>r_error = Some UserEmailNotFound, r_organizationId = None\<rparr>, d)
          else
            (case single [i \<leftarrow> invitations d.
                            i_id i = invitationId \<and> i_invitee_email i = email
                            \<and> i_status i = Pending] of
               None \<Rightarrow>
                 (\<lparr>r_error = Some InvitationNotFoundOrExpired, r_organizationId = None\<rparr>, d)
             | Some invitation \<Rightarrow>
                 if i_expires_at invitation < now then
                   (\<lparr>r_error = Some InvitationExpired, r_organizationId = None\<rparr>,
                    if fault fs 0 then d
                    else d\<lparr>invitations :=
                            set_status_by_id invitationId Expired (invitations d)\<rparr>)
                 else if member_row d (i_organization_id invitation) (a_id user) \<noteq> None then
                   (\<lparr>r_error = Some YouAreAlreadyMember,
                     r_organizationId = Some (i_organization_id invitation)\<rparr>,
                    if fault fs 0 then d
                    else d\<lparr>invitations :=
                            accept_pending (i_organization_id invitation) email
                              (invitations d)\<rparr>)
                 else if fault fs 0 then
                   (\<lparr>r_error = Some AcceptFailed, r_organizationId = None\<rparr>, d)
                 else
                   (let d1 = d\<lparr>organization_members := organization_members d @
                                 [\<lparr>m_id = new_member_id,
                                   m_organization_id = i_organization_id invitation,
                                   m_user_id = a_id user, m_role = i_role invitation\<rparr>]\<rparr>
                    in if fault fs 1 then
                         (\<lparr>r_error = Some MarkAcceptedFailed, r_organizationId = None\<rparr>, d1)
                       else
                         (let updateResult = [i \<leftarrow> invitations d1. i_id i = invitationId];
                              d2 = d1\<lparr>invitations :=
                                       set_status_by_id invitationId Accepted
                                         (invitations d1)\<rparr>
                          in if updateResult = [] then
                               (\<lparr>r_error = Some MarkAcceptedNoRows,
                                 r_organizationId = None\<rparr>, d2)
                             else
                               (\<lparr>r_error = None,
                                 r_organizationId = Some (i_organization_id invitation)\<rparr>,
                                if fault fs 2 then d2
                                else d2\<lparr>invitations :=
                                         accept_pending (i_organization_id invitation) email
                                           (invitations d2)\<rparr>)))))"

subsection \<open>acceptInvitationByToken\<close>

definition acceptInvitationByToken ::
  "platform \<Rightarrow> bool list \<Rightarrow> string \<Rightarrow> int \<Rightarrow> AuthUser \<Rightarrow> string \<Rightarrow> db \<Rightarrow> accept_result \<times> db" where
  "acceptInvitationByToken env fs new_member_id now user token d =
     (case a_email user of
        None \<Rightarrow> (\<lparr>r_error = Some UserEmailNotFound, r_organizationId = None\<rparr>, d)
      | Some email \<Rightarrow>
          if email = [] then (\<lparr>r_error = Some UserEmailNotFound, r_organizationId = None\<rparr>, d)
          else
            (case single [i \<leftarrow> invitations d. i_token i = token \<and> i_status i = Pending] of
               None \<Rightarrow>
                 (\<lparr>r_error = Some InvitationNotFoundOrUsed, r_organizationId = None\<rparr>, d)
             | Some invitation \<Rightarrow>
                 if toLowerCase env (i_invitee_email invitation) \<noteq> toLowerCase env email then
                   (\<lparr>r_error = Some DifferentEmail, r_organizationId = None\<rparr>, d)
                 else if i_expires_at invitation < now then
                   (\<lparr>r_error = Some InvitationExpired, r_organizationId = None\<rparr>,
                    if fault fs 0 then d
                    else d\<lparr>invitations :=
                            set_status_by_token token Expired (invitations d)\<rparr>)
                 else if member_row d (i_organization_id invitation) (a_id user) \<noteq> None then
                   (\<lparr>r_error = None,
                     r_organizationId = Some (i_organization_id invitation)\<rparr>,
                    if fault fs 0 then d
                    else d\<lparr>invitations :=
                            accept_pending (i_organization_id invitation) email
                              (invitations d)\<rparr>)
                 else if fault fs 0 then
                   (\<lparr>r_error = Some AcceptFailed, r_organizationId = None\<rparr>, d)
                 else
                   (let d1 = d\<lparr>organization_members := organization_members d @
                                 [\<lparr>m_id = new_member_id,
                                   m_organization_id = i_organization_id invitation,
                                   m_user_id = a_id user, m_role = i_role invitation\<rparr>]\<rparr>
                    in if fault fs 1 then
                         (\<lparr>r_error = Some MarkAcceptedFailed, r_organizationId = None\<rparr>, d1)
                       else
                         (let updateResult = [i \<leftarrow> invitations d1. i_token i = token];
                              d2 = d1\<lparr>invitations :=
                                       set_status_by_token token Accepted
                                         (invitations d1)\<rparr>
                          in if updateResult = [] then
                               (\<lparr>r_error = Some MarkAcceptedNoRows,
                                 r_organizationId = None\<rparr>, d2)
                             else
                               (\<lparr>r_error = None,
                                 r_organizationId = Some (i_organization_id invitation)\<rparr>,
                                if fault fs 2 then d2
                                else d2\<lparr>invitations :=
                                         accept_pending (i_organization_id invitation) email
                                           (invitations d2)\<rparr>)))))"

subsection \<open>declineInvitation and cancelInvitation\<close>

definition declineInvitation ::
  "bool list \<Rightarrow> AuthUser \<Rightarrow> string \<Rightarrow> db \<Rightarrow> err option \<times> db" where
  "declineInvitation fs user invitationId d =
     (case a_email user of
        None \<Rightarrow> (Some UserEmailNotFound, d)
      | Some email \<Rightarrow>
          if email = [] then (Some UserEmailNotFound, d)
          else
            (case single [i \<leftarrow> invitations d.
                            i_id i = invitationId \<and> i_invitee_email i = email
                            \<and> i_status i = Pending] of
               None \<Rightarrow> (Some InvitationNotFound, d)
             | Some invitation \<Rightarrow>
                 if fault fs 0 then (Some DeclineFailed, d)
                 else (None,
                       d\<lparr>invitations :=
                           set_status_by_id invitationId Expired (invitations d)\<rparr>)))"

definition cancelInvitation ::
  "bool list \<Rightarrow> AuthUser \<Rightarrow> string \<Rightarrow> string \<Rightarrow> db \<Rightarrow> err option \<times> db" where
  "cancelInvitation fs user organizationId invitationId d =
     (if \<not> isMember d (a_id user) organizationId then (Some NoAccess, d)
      else
        (case single [i \<leftarrow> invitations d.
                        i_id i = invitationId \<and> i_organization_id i = organizationId
                        \<and> i_status i = Pending] of
           None \<Rightarrow> (Some InvitationNotFound, d)
         | Some invitation \<Rightarrow>
             (case member_row d organizationId (a_id user) of
                None \<Rightarrow> (Some NoPermissionCancel, d)
              | Some member \<Rightarrow>
                  if m_role member \<noteq> Owner \<and> m_role member \<noteq> Admin
                     \<and> i_inviter_id invitation \<noteq> a_id user
                  then (Some NoPermissionCancel, d)
                  else if fault fs 0 then (Some CancelFailed, d)
                  else (None,
                        d\<lparr>invitations :=
                            set_status_by_id invitationId Expired (invitations d)\<rparr>))))"

section \<open>The invocation surface\<close>

text \<open>
  One constructor per mutating action of the member and invitation modules, with the
  arguments of the call and the values the environment supplies (generated ids and tokens,
  the clock). \<open>step\<close> runs one action and returns the tables after it.
\<close>

datatype action =
    InviteMember string string int AuthUser string FormData
  | ChangeMemberRole AuthUser string string FormData
  | RemoveMember AuthUser string string
  | TransferOwnership AuthUser string string
  | AcceptInvitation string int AuthUser string
  | AcceptInvitationByToken string int AuthUser string
  | DeclineInvitation AuthUser string
  | CancelInvitation AuthUser string string

fun step :: "platform \<Rightarrow> bool list \<Rightarrow> action \<Rightarrow> db \<Rightarrow> db" where
  "step env fs (InviteMember new_id new_token now user organizationId formData) d =
     snd (inviteMember env fs new_id new_token now user organizationId formData d)"
| "step env fs (ChangeMemberRole user organizationId memberId formData) d =
     snd (changeMemberRole fs user organizationId memberId formData d)"
| "step env fs (RemoveMember user organizationId memberId) d =
     snd (removeMember fs user organizationId memberId d)"
| "step env fs (TransferOwnership user organizationId newOwnerMemberId) d =
     fst (snd (transferOwnership fs user organizationId newOwnerMemberId d))"
| "step env fs (AcceptInvitation new_member_id now user invitationId) d =
     snd (acceptInvitation fs new_member_id now user invitationId d)"
| "step env fs (AcceptInvitationByToken new_member_id now user token) d =
     snd (acceptInvitationByToken env fs new_member_id now user token d)"
| "step env fs (DeclineInvitation user invitationId) d =
     snd (declineInvitation fs user invitationId d)"
| "step env fs (CancelInvitation user organizationId invitationId) d =
     snd (cancelInvitation fs user organizationId invitationId d)"

section \<open>Derived notions and example data\<close>

text \<open>The memberships of an organization that hold the role \<open>owner\<close>.\<close>

definition owners :: "db \<Rightarrow> string \<Rightarrow> OrganizationMember list" where
  "owners d organizationId =
     [m \<leftarrow> organization_members d. m_organization_id m = organizationId \<and> m_role m = Owner]"

text \<open>An organization with an owner, an admin and a user; a fourth person has a profile
  and no membership.\<close>

definition acme :: db where
  "acme = \<lparr>organization_members =
             [\<lparr>m_id = ''m1'', m_organization_id = ''o1'', m_user_id = ''u1'', m_role = Owner\<rparr>,
              \<lparr>m_id = ''m2'', m_organization_id = ''o1'', m_user_id = ''u2'', m_role = Admin\<rparr>,
              \<lparr>m_id = ''m3'', m_organization_id = ''o1'', m_user_id = ''u3'', m_role = User\<rparr>],
           invitations = [],
           users =
             [\<lparr>u_id = ''u1'', u_email = ''o@x.com''\<rparr>,
              \<lparr>u_id = ''u2'', u_email = ''a@x.com''\<rparr>,
              \<lparr>u_id = ''u3'', u_email = ''m@x.com''\<rparr>,
              \<lparr>u_id = ''u4'', u_email = ''n@x.com''\<rparr>]\<rparr>"

definition owner_u :: AuthUser where
  "owner_u = \<lparr>a_id = ''u1'', a_email = Some ''o@x.com''\<rparr>"

definition member_u :: AuthUser where
  "member_u = \<lparr>a_id = ''u3'', a_email = Some ''m@x.com''\<rparr>"

text \<open>The owner hands the organization to the user, who hands it back.\<close>

definition acme_transferred :: db where
  "acme_transferred = fst (snd (transferOwnership [] owner_u ''o1'' ''m3'' acme))"

definition acme_round_trip :: db where
  "acme_round_trip = fst (snd (transferOwnership [] member_u ''o1'' ''m1'' acme_transferred))"

text \<open>The user is already a member and has two pending invitations to the organization.\<close>

definition acme_member_invited :: db where
  "acme_member_invited = acme\<lparr>invitations :=
     [\<lparr>i_id = ''i1'', i_organization_id = ''o1'', i_inviter_id = ''u1'',
       i_invitee_email = ''m@x.com'', i_role = Viewer, i_status = Pending, i_token = ''t1'',
       i_expires_at = 100, i_created_at = 0\<rparr>,
      \<lparr>i_id = ''i2'', i_organization_id = ''o1'', i_inviter_id = ''u2'',
       i_invitee_email = ''m@x.com'', i_role = Viewer, i_status = Pending, i_token = ''t2'',
       i_expires_at = 100, i_created_at = 1\<rparr>]\<rparr>"

text \<open>A person without a membership has one pending invitation, and accepts it by its
  token.\<close>

definition newcomer_u :: AuthUser where
  "newcomer_u = \<lparr>a_id = ''u4'', a_email = Some ''n@x.com''\<rparr>"

definition acme_invited :: db where
  "acme_invited = acme\<lparr>invitations :=
     [\<lparr>i_id = ''i1'', i_organization_id = ''o1'', i_inviter_id = ''u1'',
       i_invitee_email = ''n@x.com'', i_role = Viewer, i_status = Pending, i_token = ''t1'',
       i_expires_at = 100, i_created_at = 0\<rparr>]\<rparr>"

text \<open>
  A platform for the examples, which use ASCII strings only. On such strings lowercasing
  maps \<open>A\<close> to \<open>Z\<close> to \<open>a\<close> to \<open>z\<close>, and trimming removes tab, line feed, vertical
  tab, form feed, carriage return and space at both ends, as the platform's functions do.
  The e-mail check is a stand-in that looks for an \<open>@\<close>; the server's time zone has no
  daylight saving, so that seven calendar days are seven times 24 hours.
\<close>

definition ascii_lower_char :: "char \<Rightarrow> char" where
  "ascii_lower_char c =
     (let n = (of_char c :: nat) in if 65 \<le> n \<and> n \<le> 90 then char_of (n + 32) else c)"

definition ascii_space :: "char \<Rightarrow> bool" where
  "ascii_space c = (let n = (of_char c :: nat) in (9 \<le> n \<and> n \<le> 13) \<or> n = 32)"

definition ascii_trim :: "string \<Rightarrow> string" where
  "ascii_trim s = rev (dropWhile ascii_space (rev (dropWhile ascii_space s)))"

definition has_at :: "string \<Rightarrow> bool" where
  "has_at s = (CHR ''@'' \<in> set s)"

definition utc_add_seven_days :: "int \<Rightarrow> int" where
  "utc_add_seven_days t = t + 7 * 24 * 60 * 60 * 1000"

definition example_platform :: platform where
  "example_platform =
     \<lparr>toLowerCase = map ascii_lower_char, trim = ascii_trim, is_email = has_at,
      add_seven_days = utc_add_seven_days\<rparr>"

definition acme_joined :: db where
  "acme_joined =
     snd (acceptInvitationByToken example_platform [] ''m4'' 10 newcomer_u ''t1'' acme_invited)"

text \<open>The newcomer, now a member, is removed by the owner and invited again.\<close>

definition acme_removed :: db where
  "acme_removed = snd (removeMember [] owner_u ''o1'' ''m4'' acme_joined)"

definition reinvite_form :: FormData where
  "reinvite_form = \<lparr>fd_email = Some '' N@x.com '', fd_role = Some ''viewer''\<rparr>"

definition acme_reinvited :: db where
  "acme_reinvited =
     snd (inviteMember example_platform [] ''i2'' ''t2'' 20 owner_u ''o1'' reinvite_form
            acme_removed)"

section \<open>Facts about the storage layer\<close>

lemma single_eq_Some: "single xs = Some x \<longleftrightarrow> xs = [x]"
  by (auto simp: single_def split: list.splits)

lemma single_map: "single (map f xs) = map_option f (single xs)"
  by (auto simp: single_def split: list.splits)

lemma filter_map_invariant:
  "(\<And>x. P (f x) = P x) \<Longrightarrow> filter P (map f xs) = map f (filter P xs)"
  by (induction xs) auto

lemma distinct_singleton_set: "distinct xs \<Longrightarrow> set xs = {x} \<Longrightarrow> xs = [x]"
proof (cases xs)
  case Nil
  assume "set xs = {x}"
  with Nil show ?thesis by simp
next
  case (Cons a ys)
  assume d: "distinct xs" and s: "set xs = {x}"
  from s Cons have "a = x" by auto
  moreover from s Cons d have "ys = []" by (cases ys) auto
  ultimately show ?thesis using Cons by simp
qed

lemma filter_eq_distinct: "distinct xs \<Longrightarrow> x \<in> set xs \<Longrightarrow> [y \<leftarrow> xs. y = x] = [x]"
  by (induction xs) (auto simp: filter_empty_conv)

lemma member_row_SomeD:
  assumes "member_row d organizationId userId = Some m"
  shows "[x \<leftarrow> organization_members d.
            m_organization_id x = organizationId \<and> m_user_id x = userId] = [m]"
    and "m \<in> set (organization_members d)"
    and "m_organization_id m = organizationId" and "m_user_id m = userId"
proof -
  show a: "[x \<leftarrow> organization_members d.
            m_organization_id x = organizationId \<and> m_user_id x = userId] = [m]"
    using assms by (simp add: member_row_def single_eq_Some)
  have "m \<in> set [x \<leftarrow> organization_members d.
            m_organization_id x = organizationId \<and> m_user_id x = userId]"
    by (simp only: a) simp
  then show "m \<in> set (organization_members d)"
    and "m_organization_id m = organizationId" and "m_user_id m = userId"
    by simp_all
qed

lemma member_by_id_SomeD:
  assumes "member_by_id d memberId organizationId = Some m"
  shows "m \<in> set (organization_members d)"
    and "m_id m = memberId" and "m_organization_id m = organizationId"
proof -
  have a: "[x \<leftarrow> organization_members d.
            m_id x = memberId \<and> m_organization_id x = organizationId] = [m]"
    using assms by (simp add: member_by_id_def single_eq_Some)
  have "m \<in> set [x \<leftarrow> organization_members d.
            m_id x = memberId \<and> m_organization_id x = organizationId]"
    by (simp only: a) simp
  then show "m \<in> set (organization_members d)"
    and "m_id m = memberId" and "m_organization_id m = organizationId"
    by simp_all
qed

lemma distinct_ids_eq:
  "distinct (map m_id ms) \<Longrightarrow> x \<in> set ms \<Longrightarrow> y \<in> set ms \<Longrightarrow> m_id x = m_id y \<Longrightarrow> x = y"
  by (meson distinct_map inj_on_eq_iff)

lemma map_id_update_member_role:
  "map m_id (update_member_role i organizationId r ms) = map m_id ms"
  by (induction ms) (simp_all add: update_member_role_def)

lemma member_row_map_role:
  assumes "organization_members d'
           = update_member_role i organizationId' r (organization_members d)"
  shows "member_row d' organizationId userId
   = map_option (\<lambda>m. if m_id m = i \<and> m_organization_id m = organizationId'
                      then m\<lparr>m_role := r\<rparr> else m)
       (member_row d organizationId userId)"
proof -
  let ?f = "\<lambda>m. if m_id m = i \<and> m_organization_id m = organizationId'
                 then m\<lparr>m_role := r\<rparr> else m"
  let ?P = "\<lambda>m. m_organization_id m = organizationId \<and> m_user_id m = userId"
  have "filter ?P (map ?f (organization_members d))
           = map ?f (filter ?P (organization_members d))"
    by (rule filter_map_invariant) simp
  then show ?thesis
    by (simp add: member_row_def assms update_member_role_def single_map)
qed

lemma member_by_id_map_role:
  assumes "organization_members d'
           = update_member_role i organizationId' r (organization_members d)"
  shows "member_by_id d' memberId organizationId
   = map_option (\<lambda>m. if m_id m = i \<and> m_organization_id m = organizationId'
                      then m\<lparr>m_role := r\<rparr> else m)
       (member_by_id d memberId organizationId)"
proof -
  let ?f = "\<lambda>m. if m_id m = i \<and> m_organization_id m = organizationId'
                 then m\<lparr>m_role := r\<rparr> else m"
  let ?P = "\<lambda>m. m_id m = memberId \<and> m_organization_id m = organizationId"
  have "filter ?P (map ?f (organization_members d))
           = map ?f (filter ?P (organization_members d))"
    by (rule filter_map_invariant) simp
  then show ?thesis
    by (simp add: member_by_id_def assms update_member_role_def single_map)
qed

lemma owner_query:
  assumes "member_row d organizationId userId = Some m"
  shows "single [x \<leftarrow> organization_members d.
                   m_organization_id x = organizationId \<and> m_user_id x = userId
                   \<and> m_role x = Owner]
         = (if m_role m = Owner then Some m else None)"
proof -
  have "[x \<leftarrow> organization_members d.
           m_organization_id x = organizationId \<and> m_user_id x = userId \<and> m_role x = Owner]
        = filter (\<lambda>x. m_role x = Owner)
            [x \<leftarrow> organization_members d.
               m_organization_id x = organizationId \<and> m_user_id x = userId]"
    by simp
  also have "\<dots> = filter (\<lambda>x. m_role x = Owner) [m]"
    by (simp only: member_row_SomeD(1) [OF assms])
  finally show ?thesis by (simp add: single_def)
qed

lemma isOwner_row:
  "member_row d organizationId userId = Some m \<Longrightarrow>
   isOwner d userId organizationId = (m_role m = Owner)"
  by (simp add: isOwner_def owner_query)

section \<open>The example organization\<close>

lemma acme_rows:
  "member_row acme ''o1'' ''u1''
     = Some \<lparr>m_id = ''m1'', m_organization_id = ''o1'', m_user_id = ''u1'', m_role = Owner\<rparr>"
  "member_row acme ''o1'' ''u2''
     = Some \<lparr>m_id = ''m2'', m_organization_id = ''o1'', m_user_id = ''u2'', m_role = Admin\<rparr>"
  "member_row acme ''o1'' ''u3''
     = Some \<lparr>m_id = ''m3'', m_organization_id = ''o1'', m_user_id = ''u3'', m_role = User\<rparr>"
  by (simp_all add: member_row_def acme_def single_def)

lemma acme_by_id:
  "member_by_id acme ''m1'' ''o1''
     = Some \<lparr>m_id = ''m1'', m_organization_id = ''o1'', m_user_id = ''u1'', m_role = Owner\<rparr>"
  "member_by_id acme ''m3'' ''o1''
     = Some \<lparr>m_id = ''m3'', m_organization_id = ''o1'', m_user_id = ''u3'', m_role = User\<rparr>"
  by (simp_all add: member_by_id_def acme_def single_def)

lemma acme_owner_row: "member_row acme ''o1'' (a_id owner_u)
     = Some \<lparr>m_id = ''m1'', m_organization_id = ''o1'', m_user_id = ''u1'', m_role = Owner\<rparr>"
  by (simp add: owner_u_def acme_rows)

lemma acme_member_row: "member_row acme ''o1'' (a_id member_u)
     = Some \<lparr>m_id = ''m3'', m_organization_id = ''o1'', m_user_id = ''u3'', m_role = User\<rparr>"
  by (simp add: member_u_def acme_rows)

lemma acme_target_is_member:
  "member_row acme ''o1''
     (m_user_id \<lparr>m_id = ''m3'', m_organization_id = ''o1'', m_user_id = ''u3'', m_role = User\<rparr>)
   \<noteq> None"
  by (simp add: acme_rows)

lemma acme_target_not_owner:
  "m_user_id \<lparr>m_id = ''m3'', m_organization_id = ''o1'', m_user_id = ''u3'', m_role = User\<rparr>
   \<noteq> a_id owner_u"
  by (simp add: owner_u_def)

lemma acme_owner_role:
  "m_role \<lparr>m_id = ''m1'', m_organization_id = ''o1'', m_user_id = ''u1'', m_role = Owner\<rparr> = Owner"
  by simp

lemma acme_demoted:
  "update_member_role ''m1'' ''o1'' Admin (organization_members acme) =
     [\<lparr>m_id = ''m1'', m_organization_id = ''o1'', m_user_id = ''u1'', m_role = Admin\<rparr>,
      \<lparr>m_id = ''m2'', m_organization_id = ''o1'', m_user_id = ''u2'', m_role = Admin\<rparr>,
      \<lparr>m_id = ''m3'', m_organization_id = ''o1'', m_user_id = ''u3'', m_role = User\<rparr>]"
  by (simp add: update_member_role_def acme_def)

section \<open>Role changes\<close>

text \<open>
  C9. For an admin actor, \<open>canChangeRole\<close> allows the change exactly when the target is a
  member whose role is user or viewer and the new role is user or viewer. A target that is
  owner or admin is denied whatever the new role (\<open>Admins cannot modify owners or other
  admins\<close>), and a new role owner or admin is denied whatever the target
  (\<open>Admins cannot assign owner or admin roles\<close> for a user or viewer target).
\<close>

theorem canChangeRole_admin:
  assumes "member_row d organizationId userId = Some actor" and "m_role actor = Admin"
  shows "(canChangeRole d userId organizationId targetUserId newRole = Allow \<longleftrightarrow>
            (\<exists>t. member_row d organizationId targetUserId = Some t \<and> m_role t \<in> {User, Viewer})
            \<and> newRole \<in> {User, Viewer})
       \<and> (\<forall>t. member_row d organizationId targetUserId = Some t \<and> m_role t \<in> {Owner, Admin}
              \<longrightarrow> canChangeRole d userId organizationId targetUserId newRole
                    = Deny AdminsCannotModify)
       \<and> (\<forall>t. member_row d organizationId targetUserId = Some t \<and> m_role t \<in> {User, Viewer}
               \<and> newRole \<in> {Owner, Admin}
              \<longrightarrow> canChangeRole d userId organizationId targetUserId newRole
                    = Deny AdminsCannotAssign)
       \<and> (newRole \<in> {Owner, Admin}
              \<longrightarrow> canChangeRole d userId organizationId targetUserId newRole \<noteq> Allow)"
proof (cases "member_row d organizationId targetUserId")
  case None
  with assms show ?thesis by (simp add: canChangeRole_def)
next
  case (Some t)
  with assms show ?thesis
    by (cases "m_role t"; cases newRole) (simp_all add: canChangeRole_def)
qed

theorem canChangeRole_admin_witness:
  "canChangeRole acme ''u2'' ''o1'' ''u3'' Viewer = Allow
   \<and> canChangeRole acme ''u2'' ''o1'' ''u1'' Viewer = Deny AdminsCannotModify
   \<and> canChangeRole acme ''u2'' ''o1'' ''u3'' Admin = Deny AdminsCannotAssign"
  using canChangeRole_admin [OF acme_rows(2), of "''u3''" Viewer]
    canChangeRole_admin [OF acme_rows(2), of "''u1''" Viewer]
    canChangeRole_admin [OF acme_rows(2), of "''u3''" Admin]
  by (simp add: acme_rows)

text \<open>
  C4, as stated, fails: \<open>canChangeRole\<close> allows an owner to request the role owner for a
  member who is not the owner.
\<close>

theorem canChangeRole_owner_counterexample:
  "canChangeRole acme ''u1'' ''o1'' ''u3'' Owner = Allow"
  by (simp add: canChangeRole_def acme_rows)

lemma parse_role_owner: "parse_role ''owner'' = Some Owner"
  by (simp add: parse_role_def)

lemma update_member_role_no_new_owner:
  assumes "r \<noteq> Owner" and "m \<in> set (update_member_role i organizationId r ms)"
    and "m_role m = Owner"
  shows "m \<in> set ms"
proof -
  from assms(2) obtain m0 where m0: "m0 \<in> set ms"
    "m = (if m_id m0 = i \<and> m_organization_id m0 = organizationId
          then m0\<lparr>m_role := r\<rparr> else m0)"
    unfolding update_member_role_def by (auto simp only: set_map image_iff)
  show ?thesis
  proof (cases "m_id m0 = i \<and> m_organization_id m0 = organizationId")
    case True
    with m0(2) have "m_role m = r" by simp
    with assms(1,3) show ?thesis by simp
  next
    case False
    with m0 show ?thesis by simp
  qed
qed

lemma changeMemberRole_no_new_owner:
  assumes "m \<in> set (organization_members
                      (snd (changeMemberRole fs user organizationId memberId formData d)))"
    and "m_role m = Owner"
  shows "m \<in> set (organization_members d)"
proof (cases "changeRoleSchema_role (fd_role formData)")
  case None
  with assms(1) show ?thesis
    by (simp add: changeMemberRole_def split: if_splits option.splits)
next
  case (Some data_role)
  show ?thesis
  proof (cases "data_role = Owner")
    case True
    with assms(1) Some show ?thesis
      by (simp add: changeMemberRole_def split: if_splits option.splits decision.splits)
  next
    case False
    have "m \<in> set (organization_members d)
          \<or> m \<in> set (update_member_role memberId organizationId data_role
                        (organization_members d))"
      using assms(1) Some False
      by (simp add: changeMemberRole_def split: if_splits option.splits decision.splits)
    with update_member_role_no_new_owner [OF False _ assms(2)] show ?thesis by blast
  qed
qed

text \<open>
  C4, amended. \<open>canChangeRole\<close> allows the new role owner exactly when the actor is the
  owner and the target is a member who is not the owner; every other request for owner is
  denied by it. \<open>changeMemberRole\<close> refuses every request for the role owner, whoever
  asks: it returns an error and leaves the tables as they were. Whatever role is
  requested, every membership that is owner after \<open>changeMemberRole\<close> was owner before it:
  the role-change path never grants the role owner.
\<close>

theorem changeMemberRole_never_owner:
  "(canChangeRole d userId organizationId targetUserId Owner = Allow \<longleftrightarrow>
      (\<exists>a t. member_row d organizationId userId = Some a \<and> m_role a = Owner
           \<and> member_row d organizationId targetUserId = Some t \<and> m_role t \<noteq> Owner))
   \<and> (fd_role formData = Some ''owner'' \<longrightarrow>
        (\<exists>e. changeMemberRole fs user organizationId memberId formData d = (Some e, d)))
   \<and> (\<forall>m \<in> set (organization_members
                    (snd (changeMemberRole fs' user' organizationId' memberId' formData' d))).
        m_role m = Owner \<longrightarrow> m \<in> set (organization_members d))"
proof -
  have a: "canChangeRole d userId organizationId targetUserId Owner = Allow \<longleftrightarrow>
      (\<exists>a t. member_row d organizationId userId = Some a \<and> m_role a = Owner
           \<and> member_row d organizationId targetUserId = Some t \<and> m_role t \<noteq> Owner)"
    by (auto simp: canChangeRole_def Let_def split: option.splits)
  have b: "\<exists>e. changeMemberRole fs user organizationId memberId formData d = (Some e, d)"
    if "fd_role formData = Some ''owner''"
    using that
    by (simp add: changeMemberRole_def changeRoleSchema_role_def parse_role_owner
        split: option.splits decision.splits)
  have c: "\<forall>m \<in> set (organization_members
                    (snd (changeMemberRole fs' user' organizationId' memberId' formData' d))).
        m_role m = Owner \<longrightarrow> m \<in> set (organization_members d)"
    using changeMemberRole_no_new_owner by blast
  from a b c show ?thesis by blast
qed

lemma acme_change_to_viewer:
  "changeMemberRole [] owner_u ''o1'' ''m3'' \<lparr>fd_email = None, fd_role = Some ''viewer''\<rparr> acme
   = (None, acme\<lparr>organization_members :=
        [\<lparr>m_id = ''m1'', m_organization_id = ''o1'', m_user_id = ''u1'', m_role = Owner\<rparr>,
         \<lparr>m_id = ''m2'', m_organization_id = ''o1'', m_user_id = ''u2'', m_role = Admin\<rparr>,
         \<lparr>m_id = ''m3'', m_organization_id = ''o1'', m_user_id = ''u3'', m_role = Viewer\<rparr>]\<rparr>)"
proof -
  have r: "changeRoleSchema_role (Some ''viewer'') = Some Viewer"
    by (simp add: changeRoleSchema_role_def parse_role_def)
  have c: "canChangeRole acme (a_id owner_u) ''o1'' ''u3'' Viewer = Allow"
    by (simp add: canChangeRole_def acme_owner_row acme_rows)
  have u: "update_member_role ''m3'' ''o1'' Viewer (organization_members acme) =
        [\<lparr>m_id = ''m1'', m_organization_id = ''o1'', m_user_id = ''u1'', m_role = Owner\<rparr>,
         \<lparr>m_id = ''m2'', m_organization_id = ''o1'', m_user_id = ''u2'', m_role = Admin\<rparr>,
         \<lparr>m_id = ''m3'', m_organization_id = ''o1'', m_user_id = ''u3'', m_role = Viewer\<rparr>]"
    by (simp add: update_member_role_def acme_def)
  show ?thesis
    by (simp add: changeMemberRole_def isMember_def acme_owner_row acme_by_id r c u fault_def)
qed

theorem changeMemberRole_never_owner_witness:
  "canChangeRole acme ''u1'' ''o1'' ''u3'' Owner = Allow
   \<and> fd_role \<lparr>fd_email = None, fd_role = Some ''owner''\<rparr> = Some ''owner''
   \<and> changeMemberRole [] owner_u ''o1'' ''m3'' \<lparr>fd_email = None, fd_role = Some ''owner''\<rparr> acme
      = (Some UseTransferOwnership, acme)
   \<and> \<lparr>m_id = ''m1'', m_organization_id = ''o1'', m_user_id = ''u1'', m_role = Owner\<rparr>
      \<in> set (organization_members
               (snd (changeMemberRole [] owner_u ''o1'' ''m3''
                       \<lparr>fd_email = None, fd_role = Some ''viewer''\<rparr> acme)))
   \<and> \<lparr>m_id = ''m1'', m_organization_id = ''o1'', m_user_id = ''u1'', m_role = Owner\<rparr>
      \<in> set (organization_members acme)"
proof -
  let ?m1 = "\<lparr>m_id = ''m1'', m_organization_id = ''o1'', m_user_id = ''u1'', m_role = Owner\<rparr>"
  note t = changeMemberRole_never_owner [of acme "''u1''" "''o1''" "''u3''"
      "\<lparr>fd_email = None, fd_role = Some ''owner''\<rparr>" "[]" owner_u "''m3''"
      "[]" owner_u "''o1''" "''m3''" "\<lparr>fd_email = None, fd_role = Some ''viewer''\<rparr>"]
  have after: "?m1 \<in> set (organization_members
               (snd (changeMemberRole [] owner_u ''o1'' ''m3''
                       \<lparr>fd_email = None, fd_role = Some ''viewer''\<rparr> acme)))"
    by (simp add: acme_change_to_viewer)
  from t have "m_role ?m1 = Owner \<longrightarrow> ?m1 \<in> set (organization_members acme)"
    using after by blast
  then have before: "?m1 \<in> set (organization_members acme)" by simp
  have refused: "changeMemberRole [] owner_u ''o1'' ''m3''
      \<lparr>fd_email = None, fd_role = Some ''owner''\<rparr> acme = (Some UseTransferOwnership, acme)"
    by (simp add: changeMemberRole_def changeRoleSchema_role_def parse_role_owner isMember_def
      acme_owner_row acme_rows acme_by_id canChangeRole_def)
  have allowed: "canChangeRole acme ''u1'' ''o1'' ''u3'' Owner = Allow"
    using t by (simp add: acme_rows)
  from allowed refused after before show ?thesis by simp
qed

section \<open>Ownership transfer\<close>

text \<open>What \<open>transferOwnership\<close> does once its checks have passed, for every outcome of its
  writes.\<close>

lemma transferOwnership_valid:
  assumes "member_row d organizationId (a_id user) = Some old"
    and "m_role old = Owner"
    and "member_by_id d newOwnerMemberId organizationId = Some new"
    and "m_user_id new \<noteq> a_id user"
    and "member_row d organizationId (m_user_id new) \<noteq> None"
  shows "transferOwnership fs user organizationId newOwnerMemberId d =
     (if fault fs 0 then
        (Some TransferFailed, d, [UpdateMemberRole (m_id old) organizationId Admin])
      else if fault fs 1 then
        (Some TransferFailed,
         (if fault fs 2 then
            d\<lparr>organization_members :=
                update_member_role (m_id old) organizationId Admin (organization_members d)\<rparr>
          else
            d\<lparr>organization_members :=
                update_member_role (m_id old) organizationId Owner
                  (update_member_role (m_id old) organizationId Admin
                     (organization_members d))\<rparr>),
         [UpdateMemberRole (m_id old) organizationId Admin,
          UpdateMemberRole newOwnerMemberId organizationId Owner,
          UpdateMemberRole (m_id old) organizationId Owner])
      else
        (None,
         d\<lparr>organization_members :=
             update_member_role newOwnerMemberId organizationId Owner
               (update_member_role (m_id old) organizationId Admin
                  (organization_members d))\<rparr>,
         [UpdateMemberRole (m_id old) organizationId Admin,
          UpdateMemberRole newOwnerMemberId organizationId Owner]))"
proof -
  have own: "isOwner d (a_id user) organizationId"
    using assms(1,2) by (simp add: isOwner_row)
  have can: "canTransferOwnership d (a_id user) organizationId (m_user_id new) = Allow"
    using own assms(4,5) by (auto simp: canTransferOwnership_def split: option.splits)
  have q: "single [x \<leftarrow> organization_members d.
                   m_organization_id x = organizationId \<and> m_user_id x = a_id user
                   \<and> m_role x = Owner] = Some old"
    using assms(1,2) by (simp add: owner_query)
  show ?thesis
    by (simp add: transferOwnership_def isMember_def assms(1,3) can q Let_def)
qed

lemmas acme_transfer =
  transferOwnership_valid [OF acme_owner_row acme_owner_role acme_by_id(2)
    acme_target_not_owner acme_target_is_member]

text \<open>
  C1. For a valid transfer (the actor's membership is the owner's, the target membership
  exists and belongs to another member), the first write \<open>transferOwnership\<close> issues sets
  the current owner's membership to admin. If that write fails, nothing else is written
  and the call fails. Otherwise the second write sets the target membership to owner; if it
  succeeds the call succeeds with exactly these two writes applied. If it fails, a third
  write sets the former owner's membership to owner again, and the call reports failure.
\<close>

theorem transferOwnership_two_phase:
  assumes "member_row d organizationId (a_id user) = Some old"
    and "m_role old = Owner"
    and "member_by_id d newOwnerMemberId organizationId = Some new"
    and "m_user_id new \<noteq> a_id user"
    and "member_row d organizationId (m_user_id new) \<noteq> None"
  shows "(let demote = UpdateMemberRole (m_id old) organizationId Admin;
              promote = UpdateMemberRole newOwnerMemberId organizationId Owner;
              restore = UpdateMemberRole (m_id old) organizationId Owner;
              demoted = update_member_role (m_id old) organizationId Admin
                          (organization_members d);
              (res, d', writes) = transferOwnership fs user organizationId newOwnerMemberId d
          in hd writes = demote
             \<and> (fault fs 0 \<longrightarrow> res = Some TransferFailed \<and> d' = d \<and> writes = [demote])
             \<and> (\<not> fault fs 0 \<and> \<not> fault fs 1 \<longrightarrow>
                   res = None \<and> writes = [demote, promote]
                   \<and> d' = d\<lparr>organization_members :=
                              update_member_role newOwnerMemberId organizationId Owner demoted\<rparr>)
             \<and> (\<not> fault fs 0 \<and> fault fs 1 \<longrightarrow>
                   res = Some TransferFailed \<and> writes = [demote, promote, restore]
                   \<and> (\<not> fault fs 2 \<longrightarrow>
                         d' = d\<lparr>organization_members :=
                                 update_member_role (m_id old) organizationId Owner demoted\<rparr>)))"
  by (simp add: transferOwnership_valid [OF assms] Let_def)

theorem transferOwnership_two_phase_witness:
  "transferOwnership [False, True] owner_u ''o1'' ''m3'' acme =
     (Some TransferFailed, acme,
      [UpdateMemberRole ''m1'' ''o1'' Admin, UpdateMemberRole ''m3'' ''o1'' Owner,
       UpdateMemberRole ''m1'' ''o1'' Owner])"
proof -
  have c: "fault [False, True] 0 = False" "fault [False, True] 1 = True"
    "fault [False, True] 2 = False"
    by (simp_all add: fault_def)
  have e: "update_member_role ''m1'' ''o1'' Owner
             (update_member_role ''m1'' ''o1'' Admin (organization_members acme))
           = organization_members acme"
    by (simp add: update_member_role_def acme_def)
  have "acme\<lparr>organization_members := organization_members acme\<rparr> = acme" by simp
  with transferOwnership_two_phase [OF acme_owner_row acme_owner_role acme_by_id(2)
      acme_target_not_owner acme_target_is_member, of "[False, True]"] e c
  show ?thesis
    by (simp add: Let_def split: prod.splits)
qed

text \<open>
  C2. When the promotion fails and the rollback fails as well, the caller gets the message
  \<open>Failed to transfer ownership. Please try again.\<close>, the very result of a transfer whose
  rollback succeeded and of one whose first write failed; the tables are left with the
  former owner as admin and no owner at all.
\<close>

theorem transferOwnership_double_failure:
  "transferOwnership [False, True, True] owner_u ''o1'' ''m3'' acme =
     (Some TransferFailed,
      acme\<lparr>organization_members :=
        [\<lparr>m_id = ''m1'', m_organization_id = ''o1'', m_user_id = ''u1'', m_role = Admin\<rparr>,
         \<lparr>m_id = ''m2'', m_organization_id = ''o1'', m_user_id = ''u2'', m_role = Admin\<rparr>,
         \<lparr>m_id = ''m3'', m_organization_id = ''o1'', m_user_id = ''u3'', m_role = User\<rparr>]\<rparr>,
      [UpdateMemberRole ''m1'' ''o1'' Admin, UpdateMemberRole ''m3'' ''o1'' Owner,
       UpdateMemberRole ''m1'' ''o1'' Owner])
   \<and> owners (fst (snd (transferOwnership [False, True, True] owner_u ''o1'' ''m3'' acme)))
        ''o1'' = []
   \<and> fst (transferOwnership [False, True, False] owner_u ''o1'' ''m3'' acme)
       = Some TransferFailed
   \<and> fst (transferOwnership [True] owner_u ''o1'' ''m3'' acme) = Some TransferFailed"
  by (simp add: acme_transfer fault_def acme_demoted owners_def)

text \<open>The example round trip, computed: the owner hands over to the user, the user hands
  back.\<close>

lemma acme_promoted:
  "update_member_role ''m3'' ''o1'' Owner
     [\<lparr>m_id = ''m1'', m_organization_id = ''o1'', m_user_id = ''u1'', m_role = Admin\<rparr>,
      \<lparr>m_id = ''m2'', m_organization_id = ''o1'', m_user_id = ''u2'', m_role = Admin\<rparr>,
      \<lparr>m_id = ''m3'', m_organization_id = ''o1'', m_user_id = ''u3'', m_role = User\<rparr>] =
     [\<lparr>m_id = ''m1'', m_organization_id = ''o1'', m_user_id = ''u1'', m_role = Admin\<rparr>,
      \<lparr>m_id = ''m2'', m_organization_id = ''o1'', m_user_id = ''u2'', m_role = Admin\<rparr>,
      \<lparr>m_id = ''m3'', m_organization_id = ''o1'', m_user_id = ''u3'', m_role = Owner\<rparr>]"
  by (simp add: update_member_role_def)

lemma acme_transferred_eq:
  "transferOwnership [] owner_u ''o1'' ''m3'' acme =
     (None, acme_transferred,
      [UpdateMemberRole ''m1'' ''o1'' Admin, UpdateMemberRole ''m3'' ''o1'' Owner])"
  "organization_members acme_transferred =
     [\<lparr>m_id = ''m1'', m_organization_id = ''o1'', m_user_id = ''u1'', m_role = Admin\<rparr>,
      \<lparr>m_id = ''m2'', m_organization_id = ''o1'', m_user_id = ''u2'', m_role = Admin\<rparr>,
      \<lparr>m_id = ''m3'', m_organization_id = ''o1'', m_user_id = ''u3'', m_role = Owner\<rparr>]"
  by (simp_all add: acme_transferred_def acme_transfer fault_def acme_demoted acme_promoted)

lemma acme_round_trip_eq:
  "transferOwnership [] member_u ''o1'' ''m1'' acme_transferred =
     (None, acme_round_trip,
      [UpdateMemberRole ''m3'' ''o1'' Admin, UpdateMemberRole ''m1'' ''o1'' Owner])"
  "organization_members acme_round_trip =
     [\<lparr>m_id = ''m1'', m_organization_id = ''o1'', m_user_id = ''u1'', m_role = Owner\<rparr>,
      \<lparr>m_id = ''m2'', m_organization_id = ''o1'', m_user_id = ''u2'', m_role = Admin\<rparr>,
      \<lparr>m_id = ''m3'', m_organization_id = ''o1'', m_user_id = ''u3'', m_role = Admin\<rparr>]"
proof -
  let ?m1 = "\<lparr>m_id = ''m1'', m_organization_id = ''o1'', m_user_id = ''u1'', m_role = Admin\<rparr>"
  let ?m3 = "\<lparr>m_id = ''m3'', m_organization_id = ''o1'', m_user_id = ''u3'', m_role = Owner\<rparr>"
  have a: "member_row acme_transferred ''o1'' (a_id member_u) = Some ?m3"
    by (simp add: member_u_def member_row_def acme_transferred_eq(2) single_def)
  have i: "member_by_id acme_transferred ''m1'' ''o1'' = Some ?m1"
    by (simp add: member_by_id_def acme_transferred_eq(2) single_def)
  have b: "member_row acme_transferred ''o1'' (m_user_id ?m1) \<noteq> None"
    by (simp add: member_row_def acme_transferred_eq(2) single_def)
  have r: "m_role ?m3 = Owner" by simp
  have ne: "m_user_id ?m1 \<noteq> a_id member_u" by (simp add: member_u_def)
  note t = transferOwnership_valid [OF a r i ne b, of "[]"]
  show "transferOwnership [] member_u ''o1'' ''m1'' acme_transferred =
     (None, acme_round_trip,
      [UpdateMemberRole ''m3'' ''o1'' Admin, UpdateMemberRole ''m1'' ''o1'' Owner])"
    by (simp add: acme_round_trip_def t fault_def)
  show "organization_members acme_round_trip =
     [\<lparr>m_id = ''m1'', m_organization_id = ''o1'', m_user_id = ''u1'', m_role = Owner\<rparr>,
      \<lparr>m_id = ''m2'', m_organization_id = ''o1'', m_user_id = ''u2'', m_role = Admin\<rparr>,
      \<lparr>m_id = ''m3'', m_organization_id = ''o1'', m_user_id = ''u3'', m_role = Admin\<rparr>]"
    by (simp add: acme_round_trip_def t fault_def acme_transferred_eq(2)
        update_member_role_def)
qed

text \<open>
  C3, as stated, fails: both transfers succeed, and the member who was a user before the
  round trip is an admin after it.
\<close>

theorem transferOwnership_round_trip_counterexample:
  "fst (transferOwnership [] owner_u ''o1'' ''m3'' acme) = None
   \<and> fst (transferOwnership [] member_u ''o1'' ''m1'' acme_transferred) = None
   \<and> map m_role (organization_members acme) = [Owner, Admin, User]
   \<and> map m_role (organization_members acme_round_trip) = [Owner, Admin, Admin]"
  by (simp add: acme_transferred_eq acme_round_trip_eq) (simp add: acme_def)

text \<open>
  C3, amended. Let an organization have exactly one owner membership, that of O, and let M
  be another member; membership ids are unique. When the writes of both calls succeed,
  \<open>transferOwnership(org, O, M)\<close> followed by \<open>transferOwnership(org, M, O)\<close> both
  succeed; in the tables between the two calls M's membership is the one owner of the
  organization; after the second call O is owner again, M is admin, and every other row is
  as it was, so the original assignment is restored exactly when M was an admin.
\<close>

theorem transferOwnership_round_trip:
  assumes dist: "distinct (map m_id (organization_members d))"
    and row_old: "member_row d organizationId (a_id owner) = Some old"
    and one_owner: "owners d organizationId = [old]"
    and by_id: "member_by_id d newOwnerMemberId organizationId = Some new"
    and row_new: "member_row d organizationId (a_id target) = Some new"
    and ne: "a_id target \<noteq> a_id owner"
    and ok1: "\<not> fault fs1 0" "\<not> fault fs1 1"
    and ok2: "\<not> fault fs2 0" "\<not> fault fs2 1"
  shows "\<exists>d1 w1 d2 w2.
           transferOwnership fs1 owner organizationId newOwnerMemberId d = (None, d1, w1)
         \<and> transferOwnership fs2 target organizationId (m_id old) d1 = (None, d2, w2)
         \<and> owners d1 organizationId = [new\<lparr>m_role := Owner\<rparr>]
         \<and> d2 = d\<lparr>organization_members :=
                    update_member_role newOwnerMemberId organizationId Admin
                      (organization_members d)\<rparr>
         \<and> (d2 = d \<longleftrightarrow> m_role new = Admin)"
proof -
  let ?ms = "organization_members d"
  let ?org = organizationId
  note o = member_row_SomeD [OF row_old]
  note n = member_row_SomeD [OF row_new]
  note ni = member_by_id_SomeD [OF by_id]
  have "old \<in> set (owners d ?org)" by (simp add: one_owner)
  then have role_old: "m_role old = Owner" by (simp add: owners_def)
  have old_new: "old \<noteq> new" using o(4) n(4) ne by auto
  have ids: "m_id old \<noteq> newOwnerMemberId"
    using distinct_ids_eq [OF dist o(2) n(2)] old_new ni(2) by auto
  have only_old: "m = old" if "m \<in> set ?ms" "m_id m = m_id old" for m
    using distinct_ids_eq [OF dist that(1) o(2) that(2)] .
  have only_new: "m = new" if "m \<in> set ?ms" "m_id m = newOwnerMemberId" for m
    using distinct_ids_eq [OF dist that(1) n(2)] that(2) ni(2) by simp
  have same_role: "m\<lparr>m_role := r\<rparr> = m" if "m_role m = r" for m :: OrganizationMember and r
    using that by (cases m) simp
  \<comment> \<open>the first transfer\<close>
  define d0 where "d0 = d\<lparr>organization_members :=
      update_member_role (m_id old) ?org Admin ?ms\<rparr>"
  define d1 where "d1 = d\<lparr>organization_members :=
      update_member_role newOwnerMemberId ?org Owner
        (update_member_role (m_id old) ?org Admin ?ms)\<rparr>"
  have ne1: "m_user_id new \<noteq> a_id owner" using n(4) ne by simp
  have b1: "member_row d ?org (m_user_id new) \<noteq> None" using n(4) row_new by simp
  have t1: "transferOwnership fs1 owner ?org newOwnerMemberId d =
      (None, d1, [UpdateMemberRole (m_id old) ?org Admin,
                  UpdateMemberRole newOwnerMemberId ?org Owner])"
    using ok1 by (simp add: transferOwnership_valid [OF row_old role_old by_id ne1 b1] d1_def)
  \<comment> \<open>the tables between the two calls\<close>
  have m0: "organization_members d0 = update_member_role (m_id old) ?org Admin ?ms"
    by (simp add: d0_def)
  have m1: "organization_members d1
            = update_member_role newOwnerMemberId ?org Owner (organization_members d0)"
    by (simp add: d1_def d0_def)
  have row_new1: "member_row d1 ?org (a_id target) = Some (new\<lparr>m_role := Owner\<rparr>)"
    using ids ni by (simp add: member_row_map_role [OF m1] member_row_map_role [OF m0] row_new)
  have row_old1: "member_row d1 ?org (a_id owner) = Some (old\<lparr>m_role := Admin\<rparr>)"
    using ids o by (simp add: member_row_map_role [OF m1] member_row_map_role [OF m0] row_old)
  have mo: "member_by_id d (m_id old) ?org = Some old"
  proof -
    have "[x \<leftarrow> ?ms. m_id x = m_id old \<and> m_organization_id x = ?org]
        = [x \<leftarrow> ?ms. x = old]"
      by (rule filter_cong) (use only_old o(3) in auto)
    also have "\<dots> = [old]"
      using o(2) dist by (simp add: filter_eq_distinct distinct_map)
    finally show ?thesis by (simp add: member_by_id_def single_def)
  qed
  have by_id1: "member_by_id d1 (m_id old) ?org = Some (old\<lparr>m_role := Admin\<rparr>)"
    using ids o by (simp add: member_by_id_map_role [OF m1] member_by_id_map_role [OF m0] mo)
  \<comment> \<open>the second transfer\<close>
  define d2 where "d2 = d1\<lparr>organization_members :=
      update_member_role (m_id old) ?org Owner
        (update_member_role newOwnerMemberId ?org Admin (organization_members d1))\<rparr>"
  have ne2: "m_user_id (old\<lparr>m_role := Admin\<rparr>) \<noteq> a_id target" using o(4) ne by simp
  have b2: "member_row d1 ?org (m_user_id (old\<lparr>m_role := Admin\<rparr>)) \<noteq> None"
    using o(4) row_old1 by simp
  have r2: "m_role (new\<lparr>m_role := Owner\<rparr>) = Owner" by simp
  have t2: "transferOwnership fs2 target ?org (m_id old) d1 =
      (None, d2, [UpdateMemberRole newOwnerMemberId ?org Admin,
                  UpdateMemberRole (m_id old) ?org Owner])"
    using ok2 ni(2)
    by (simp add: transferOwnership_valid [OF row_new1 r2 by_id1 ne2 b2] d2_def)
  \<comment> \<open>the tables after the round trip\<close>
  have "update_member_role (m_id old) ?org Owner
          (update_member_role newOwnerMemberId ?org Admin
             (update_member_role newOwnerMemberId ?org Owner
                (update_member_role (m_id old) ?org Admin ?ms)))
        = update_member_role newOwnerMemberId ?org Admin ?ms"
    unfolding update_member_role_def map_map
  proof (rule map_cong [OF refl])
    fix m assume m: "m \<in> set ?ms"
    consider (a) "m = old" | (b) "m = new"
      | (c) "m_id m \<noteq> m_id old" "m_id m \<noteq> newOwnerMemberId"
      using only_old [OF m] only_new [OF m] by blast
    then show "((\<lambda>m. if m_id m = m_id old \<and> m_organization_id m = ?org
                     then m\<lparr>m_role := Owner\<rparr> else m) \<circ>
               ((\<lambda>m. if m_id m = newOwnerMemberId \<and> m_organization_id m = ?org
                     then m\<lparr>m_role := Admin\<rparr> else m) \<circ>
                ((\<lambda>m. if m_id m = newOwnerMemberId \<and> m_organization_id m = ?org
                     then m\<lparr>m_role := Owner\<rparr> else m) \<circ>
                 (\<lambda>m. if m_id m = m_id old \<and> m_organization_id m = ?org
                     then m\<lparr>m_role := Admin\<rparr> else m)))) m
             = (if m_id m = newOwnerMemberId \<and> m_organization_id m = ?org
                then m\<lparr>m_role := Admin\<rparr> else m)"
    proof cases
      case a
      then show ?thesis using ids o(3) role_old by (simp add: same_role)
    next
      case b
      then show ?thesis using ids ni by simp
    next
      case c
      then show ?thesis by simp
    qed
  qed
  then have "organization_members d2 = update_member_role newOwnerMemberId ?org Admin ?ms"
    by (simp add: d2_def d1_def)
  then have e2: "d2 = d\<lparr>organization_members :=
                    update_member_role newOwnerMemberId ?org Admin ?ms\<rparr>"
    by (simp add: d2_def d1_def)
  have restored: "d2 = d \<longleftrightarrow> m_role new = Admin"
  proof
    assume "d2 = d"
    with e2 have "organization_members d
        = organization_members (d\<lparr>organization_members :=
                    update_member_role newOwnerMemberId ?org Admin ?ms\<rparr>)"
      by simp
    then have "map (\<lambda>m. if m_id m = newOwnerMemberId \<and> m_organization_id m = ?org
                  then m\<lparr>m_role := Admin\<rparr> else m) ?ms = map (\<lambda>m. m) ?ms"
      by (simp add: update_member_role_def)
    then have "new\<lparr>m_role := Admin\<rparr> = new"
      using n(2) ni by (auto simp only: map_eq_conv split: if_splits)
    then have "m_role (new\<lparr>m_role := Admin\<rparr>) = m_role new" by (rule arg_cong)
    then show "m_role new = Admin" by simp
  next
    assume "m_role new = Admin"
    then have "update_member_role newOwnerMemberId ?org Admin ?ms = ?ms"
      unfolding update_member_role_def
      by (intro map_idI) (auto dest: only_new simp: same_role)
    with e2 show "d2 = d" by simp
  qed
  \<comment> \<open>exactly one owner between the calls\<close>
  have "distinct (map m_id (organization_members d1))"
    using dist by (simp add: d1_def map_id_update_member_role)
  then have "distinct (owners d1 ?org)"
    by (simp add: owners_def distinct_map)
  moreover have "set (owners d1 ?org) = {new\<lparr>m_role := Owner\<rparr>}"
  proof -
    define g :: "OrganizationMember \<Rightarrow> OrganizationMember"
      where "g = (\<lambda>m. (\<lambda>m. if m_id m = newOwnerMemberId \<and> m_organization_id m = ?org
                             then m\<lparr>m_role := Owner\<rparr> else m)
                       (if m_id m = m_id old \<and> m_organization_id m = ?org
                        then m\<lparr>m_role := Admin\<rparr> else m))"
    have mm: "organization_members d1 = map g ?ms"
      by (simp add: d1_def update_member_role_def g_def)
    have so: "set (owners d1 ?org)
              = {x \<in> g ` set ?ms. m_organization_id x = ?org \<and> m_role x = Owner}"
      by (simp only: owners_def mm set_filter set_map)
    have g_new: "g new = new\<lparr>m_role := Owner\<rparr>"
      using ids ni by (simp add: g_def)
    have g_old: "g old = old\<lparr>m_role := Admin\<rparr>"
      using ids o(3) by (simp add: g_def)
    have g_other: "g m = m" if "m_id m \<noteq> m_id old" "m_id m \<noteq> newOwnerMemberId" for m
      using that by (simp add: g_def)
    show ?thesis
    proof (intro equalityI subsetI)
      fix x assume "x \<in> set (owners d1 ?org)"
      then obtain m where m: "m \<in> set ?ms" "x = g m"
        "m_organization_id x = ?org" "m_role x = Owner"
        unfolding so by blast
      consider (a) "m = old" | (b) "m = new"
        | (c) "m_id m \<noteq> m_id old" "m_id m \<noteq> newOwnerMemberId"
        using only_old [OF m(1)] only_new [OF m(1)] by blast
      then show "x \<in> {new\<lparr>m_role := Owner\<rparr>}"
      proof cases
        case a
        then show ?thesis using m(2,4) g_old by simp
      next
        case b
        then show ?thesis using m(2) g_new by simp
      next
        case c
        then have "x = m" using m(2) g_other by simp
        then have "m \<in> set (owners d ?org)" using m by (simp add: owners_def)
        then have "m = old" by (simp add: one_owner)
        with c show ?thesis by simp
      qed
    next
      fix x assume "x \<in> {new\<lparr>m_role := Owner\<rparr>}"
      then have x: "x = g new" using g_new by simp
      then have "x \<in> g ` set ?ms" using n(2) by (rule image_eqI)
      moreover have "m_organization_id x = ?org" "m_role x = Owner"
        using x g_new ni by simp_all
      ultimately show "x \<in> set (owners d1 ?org)"
        unfolding so by blast
    qed
  qed
  ultimately have own1: "owners d1 ?org = [new\<lparr>m_role := Owner\<rparr>]"
    by (rule distinct_singleton_set)
  from t1 t2 own1 e2 restored show ?thesis by blast
qed

theorem transferOwnership_round_trip_witness:
  "owners acme_transferred ''o1''
     = [\<lparr>m_id = ''m3'', m_organization_id = ''o1'', m_user_id = ''u3'', m_role = Owner\<rparr>]
   \<and> acme_round_trip
     = acme\<lparr>organization_members :=
              update_member_role ''m3'' ''o1'' Admin (organization_members acme)\<rparr>
   \<and> acme_round_trip \<noteq> acme"
proof -
  let ?m1 = "\<lparr>m_id = ''m1'', m_organization_id = ''o1'', m_user_id = ''u1'', m_role = Owner\<rparr>"
  let ?m3 = "\<lparr>m_id = ''m3'', m_organization_id = ''o1'', m_user_id = ''u3'', m_role = User\<rparr>"
  have dist: "distinct (map m_id (organization_members acme))"
    by (simp add: acme_def)
  have one: "owners acme ''o1'' = [?m1]"
    by (simp add: owners_def acme_def)
  have ne: "a_id member_u \<noteq> a_id owner_u"
    by (simp add: member_u_def owner_u_def)
  have ok: "\<not> fault [] 0" "\<not> fault [] 1"
    by (simp_all add: fault_def)
  from transferOwnership_round_trip
    [OF dist acme_owner_row one acme_by_id(2) acme_member_row ne ok ok]
  obtain d1 w1 d2 w2 where
    t1: "transferOwnership [] owner_u ''o1'' ''m3'' acme = (None, d1, w1)"
    and t2: "transferOwnership [] member_u ''o1'' (m_id ?m1) d1 = (None, d2, w2)"
    and own: "owners d1 ''o1'' = [?m3\<lparr>m_role := Owner\<rparr>]"
    and e2: "d2 = acme\<lparr>organization_members :=
                update_member_role ''m3'' ''o1'' Admin (organization_members acme)\<rparr>"
    and r: "d2 = acme \<longleftrightarrow> m_role ?m3 = Admin"
    by blast
  have d1: "acme_transferred = d1" by (simp add: acme_transferred_def t1)
  have d2: "acme_round_trip = d2" using t2 by (simp add: acme_round_trip_def d1)
  from own e2 r show ?thesis by (simp add: d1 d2)
qed

section \<open>Accepting invitations\<close>

lemma accept_pending_none_pending:
  "j \<in> set (accept_pending organizationId email invs) \<Longrightarrow>
   i_organization_id j = organizationId \<Longrightarrow> i_invitee_email j = email \<Longrightarrow>
   i_status j \<noteq> Pending"
proof -
  assume j: "j \<in> set (accept_pending organizationId email invs)"
    and o: "i_organization_id j = organizationId" and e: "i_invitee_email j = email"
  from j obtain i where i: "j = (if i_organization_id i = organizationId
        \<and> i_invitee_email i = email \<and> i_status i = Pending
      then i\<lparr>i_status := Accepted\<rparr> else i)"
    unfolding accept_pending_def by (auto simp only: set_map image_iff)
  show "i_status j \<noteq> Pending"
  proof (cases "i_organization_id i = organizationId
        \<and> i_invitee_email i = email \<and> i_status i = Pending")
    case True
    with i show ?thesis by simp
  next
    case False
    with i have "j = i" by simp
    with False o e show ?thesis by simp
  qed
qed

lemma accept_pending_marks:
  "invitation \<in> set invs \<Longrightarrow> i_organization_id invitation = organizationId \<Longrightarrow>
   i_invitee_email invitation = email \<Longrightarrow> i_status invitation = Pending \<Longrightarrow>
   invitation\<lparr>i_status := Accepted\<rparr> \<in> set (accept_pending organizationId email invs)"
  by (force simp: accept_pending_def)

lemma accept_pending_ids:
  "map i_id (accept_pending organizationId email invs) = map i_id invs"
  by (induction invs) (simp_all add: accept_pending_def)

lemma single_SomeD:
  assumes "single (filter P xs) = Some x"
  shows "x \<in> set xs" and "P x"
proof -
  have "x \<in> set (filter P xs)"
    using assms by (simp add: single_eq_Some)
  then show "x \<in> set xs" and "P x" by simp_all
qed

text \<open>
  C5, as stated, fails on the path by invitation id: the short circuit returns the error
  \<open>You are already a member of this organization\<close> (with the organization id), not a
  success.
\<close>

theorem acceptInvitation_already_member_counterexample:
  "fst (acceptInvitation [] ''m9'' 10 member_u ''i1'' acme_member_invited)
     = \<lparr>r_error = Some YouAreAlreadyMember, r_organizationId = Some ''o1''\<rparr>"
proof -
  have "member_row acme_member_invited ''o1'' ''u3'' = member_row acme ''o1'' ''u3''"
    by (simp add: member_row_def acme_member_invited_def)
  then show ?thesis
    by (simp add: acceptInvitation_def member_u_def acme_member_invited_def single_def
        acme_rows)
qed

text \<open>
  C5, amended. For a pending, unexpired invitation whose invitee is already a member of
  the organization, accepting it short-circuits: no membership is created and the result
  carries the organization id; by token the result is a success, by invitation id it
  carries the error \<open>You are already a member of this organization\<close>. The one write is the
  sweep keyed by the organization and the acting user's e-mail: when it is not rejected,
  no invitation of that pair is pending afterwards, and the invitation itself is marked
  accepted whenever its stored e-mail is the acting user's e-mail (by id it always is).
\<close>

theorem accept_already_member:
  assumes "a_email user = Some email" and "email \<noteq> []"
    and "\<not> i_expires_at invitation < now"
    and "member_row d (i_organization_id invitation) (a_id user) \<noteq> None"
  shows "(single [i \<leftarrow> invitations d. i_id i = invitationId \<and> i_invitee_email i = email
                                     \<and> i_status i = Pending] = Some invitation \<longrightarrow>
            acceptInvitation fs new_member_id now user invitationId d =
              (\<lparr>r_error = Some YouAreAlreadyMember,
                r_organizationId = Some (i_organization_id invitation)\<rparr>,
               if fault fs 0 then d
               else d\<lparr>invitations :=
                       accept_pending (i_organization_id invitation) email (invitations d)\<rparr>)
            \<and> invitation\<lparr>i_status := Accepted\<rparr>
                \<in> set (accept_pending (i_organization_id invitation) email (invitations d)))
       \<and> (single [i \<leftarrow> invitations d. i_token i = token \<and> i_status i = Pending] = Some invitation
            \<and> toLowerCase env (i_invitee_email invitation) = toLowerCase env email \<longrightarrow>
            acceptInvitationByToken env fs new_member_id now user token d =
              (\<lparr>r_error = None, r_organizationId = Some (i_organization_id invitation)\<rparr>,
               if fault fs 0 then d
               else d\<lparr>invitations :=
                       accept_pending (i_organization_id invitation) email (invitations d)\<rparr>)
            \<and> (i_invitee_email invitation = email \<longrightarrow>
                 invitation\<lparr>i_status := Accepted\<rparr>
                   \<in> set (accept_pending (i_organization_id invitation) email (invitations d))))
       \<and> (\<forall>j \<in> set (accept_pending (i_organization_id invitation) email (invitations d)).
             i_organization_id j = i_organization_id invitation \<and> i_invitee_email j = email
             \<longrightarrow> i_status j \<noteq> Pending)
       \<and> map i_id (accept_pending (i_organization_id invitation) email (invitations d))
           = map i_id (invitations d)"
proof -
  have by_id: "acceptInvitation fs new_member_id now user invitationId d =
              (\<lparr>r_error = Some YouAreAlreadyMember,
                r_organizationId = Some (i_organization_id invitation)\<rparr>,
               if fault fs 0 then d
               else d\<lparr>invitations :=
                       accept_pending (i_organization_id invitation) email (invitations d)\<rparr>)
            \<and> invitation\<lparr>i_status := Accepted\<rparr>
                \<in> set (accept_pending (i_organization_id invitation) email (invitations d))"
    if q: "single [i \<leftarrow> invitations d. i_id i = invitationId \<and> i_invitee_email i = email
                                     \<and> i_status i = Pending] = Some invitation"
  proof -
    note p = single_SomeD [OF q]
    have "invitation\<lparr>i_status := Accepted\<rparr>
            \<in> set (accept_pending (i_organization_id invitation) email (invitations d))"
      using p by (intro accept_pending_marks) simp_all
    moreover have "acceptInvitation fs new_member_id now user invitationId d =
              (\<lparr>r_error = Some YouAreAlreadyMember,
                r_organizationId = Some (i_organization_id invitation)\<rparr>,
               if fault fs 0 then d
               else d\<lparr>invitations :=
                       accept_pending (i_organization_id invitation) email (invitations d)\<rparr>)"
      using assms by (simp add: acceptInvitation_def q)
    ultimately show ?thesis by simp
  qed
  have by_token: "acceptInvitationByToken env fs new_member_id now user token d =
              (\<lparr>r_error = None, r_organizationId = Some (i_organization_id invitation)\<rparr>,
               if fault fs 0 then d
               else d\<lparr>invitations :=
                       accept_pending (i_organization_id invitation) email (invitations d)\<rparr>)
            \<and> (i_invitee_email invitation = email \<longrightarrow>
                 invitation\<lparr>i_status := Accepted\<rparr>
                   \<in> set (accept_pending (i_organization_id invitation) email (invitations d)))"
    if q: "single [i \<leftarrow> invitations d. i_token i = token \<and> i_status i = Pending] = Some invitation"
      and e: "toLowerCase env (i_invitee_email invitation) = toLowerCase env email"
  proof -
    note p = single_SomeD [OF q]
    have "invitation\<lparr>i_status := Accepted\<rparr>
            \<in> set (accept_pending (i_organization_id invitation) email (invitations d))"
      if "i_invitee_email invitation = email"
      using p that by (intro accept_pending_marks) simp_all
    moreover have "acceptInvitationByToken env fs new_member_id now user token d =
              (\<lparr>r_error = None, r_organizationId = Some (i_organization_id invitation)\<rparr>,
               if fault fs 0 then d
               else d\<lparr>invitations :=
                       accept_pending (i_organization_id invitation) email (invitations d)\<rparr>)"
      using assms e by (simp add: acceptInvitationByToken_def q)
    ultimately show ?thesis by simp
  qed
  have swept: "\<forall>j \<in> set (accept_pending (i_organization_id invitation) email (invitations d)).
             i_organization_id j = i_organization_id invitation \<and> i_invitee_email j = email
             \<longrightarrow> i_status j \<noteq> Pending"
    using accept_pending_none_pending by blast
  from by_id by_token swept accept_pending_ids show ?thesis by blast
qed

lemma acme_member_invited_row:
  "member_row acme_member_invited ''o1'' ''u3'' = member_row acme ''o1'' ''u3''"
  by (simp add: member_row_def acme_member_invited_def)

theorem accept_already_member_witness:
  "acceptInvitation [] ''m9'' 10 member_u ''i1'' acme_member_invited =
     (\<lparr>r_error = Some YouAreAlreadyMember, r_organizationId = Some ''o1''\<rparr>,
      acme_member_invited\<lparr>invitations :=
        accept_pending ''o1'' ''m@x.com'' (invitations acme_member_invited)\<rparr>)
   \<and> acceptInvitationByToken example_platform [] ''m9'' 10 member_u ''t1'' acme_member_invited =
     (\<lparr>r_error = None, r_organizationId = Some ''o1''\<rparr>,
      acme_member_invited\<lparr>invitations :=
        accept_pending ''o1'' ''m@x.com'' (invitations acme_member_invited)\<rparr>)
   \<and> map i_status (accept_pending ''o1'' ''m@x.com'' (invitations acme_member_invited))
       = [Accepted, Accepted]"
proof -
  let ?invitation = "\<lparr>i_id = ''i1'', i_organization_id = ''o1'', i_inviter_id = ''u1'',
       i_invitee_email = ''m@x.com'', i_role = Viewer, i_status = Pending, i_token = ''t1'',
       i_expires_at = 100, i_created_at = 0\<rparr>"
  have a: "a_email member_u = Some ''m@x.com''" "''m@x.com'' \<noteq> []"
    by (simp_all add: member_u_def)
  have x: "\<not> i_expires_at ?invitation < 10" by simp
  have m: "member_row acme_member_invited (i_organization_id ?invitation) (a_id member_u) \<noteq> None"
    by (simp add: acme_member_invited_row member_u_def acme_rows)
  have q1: "single [i \<leftarrow> invitations acme_member_invited.
              i_id i = ''i1'' \<and> i_invitee_email i = ''m@x.com'' \<and> i_status i = Pending]
            = Some ?invitation"
    by (simp add: acme_member_invited_def single_def)
  have q2: "single [i \<leftarrow> invitations acme_member_invited.
              i_token i = ''t1'' \<and> i_status i = Pending] = Some ?invitation"
    by (simp add: acme_member_invited_def single_def)
  have f: "\<not> fault [] 0" by (simp add: fault_def)
  have s: "map i_status (accept_pending ''o1'' ''m@x.com'' (invitations acme_member_invited))
       = [Accepted, Accepted]"
    by (simp add: accept_pending_def acme_member_invited_def)
  from accept_already_member [OF a x m, of "''i1''" "[]" "''m9''" "''t1''" example_platform]
    q1 q2 f s
  show ?thesis by simp
qed

text \<open>The short circuit by token when the acting user's e-mail differs from the stored
  one in case only: the call succeeds and the invitation stays pending.\<close>

lemma acceptInvitationByToken_other_case:
  "acceptInvitationByToken example_platform [] ''m9'' 10 \<lparr>a_id = ''u3'', a_email = Some ''M@x.com''\<rparr> ''t1''
     acme_member_invited
   = (\<lparr>r_error = None, r_organizationId = Some ''o1''\<rparr>, acme_member_invited)"
proof -
  have "map ascii_lower_char ''M@x.com'' = ''m@x.com''"
    "map ascii_lower_char ''m@x.com'' = ''m@x.com''"
    by code_simp+
  then have l: "toLowerCase example_platform ''M@x.com'' = ''m@x.com''"
    "toLowerCase example_platform ''m@x.com'' = ''m@x.com''"
    by (simp_all add: example_platform_def)
  have q2: "single [i \<leftarrow> invitations acme_member_invited.
              i_token i = ''t1'' \<and> i_status i = Pending]
     = Some \<lparr>i_id = ''i1'', i_organization_id = ''o1'', i_inviter_id = ''u1'',
       i_invitee_email = ''m@x.com'', i_role = Viewer, i_status = Pending, i_token = ''t1'',
       i_expires_at = 100, i_created_at = 0\<rparr>"
    by (simp add: acme_member_invited_def single_def)
  have s: "accept_pending ''o1'' ''M@x.com'' (invitations acme_member_invited)
           = invitations acme_member_invited"
    by (simp add: accept_pending_def acme_member_invited_def)
  show ?thesis
    by (simp add: acceptInvitationByToken_def q2 l acme_member_invited_row acme_rows
        fault_def s)
qed

section \<open>Accepting twice by the same token\<close>

lemma set_status_by_token_accepted:
  "j \<in> set (set_status_by_token token Accepted invs) \<Longrightarrow> i_token j = token \<Longrightarrow>
   i_status j = Accepted"
proof -
  assume j: "j \<in> set (set_status_by_token token Accepted invs)" and t: "i_token j = token"
  from j obtain i where i: "j = (if i_token i = token then i\<lparr>i_status := Accepted\<rparr> else i)"
    unfolding set_status_by_token_def by (auto simp only: set_map image_iff)
  show "i_status j = Accepted"
  proof (cases "i_token i = token")
    case True
    with i show ?thesis by simp
  next
    case False
    with i t show ?thesis by simp
  qed
qed

lemma accept_pending_keeps_accepted:
  "j \<in> set (accept_pending organizationId email invs) \<Longrightarrow>
   \<exists>i \<in> set invs. i_token i = i_token j \<and> (i_status i = Accepted \<longrightarrow> j = i)
                   \<and> (i_status j = Pending \<longrightarrow> i_status i = Pending)"
proof -
  assume "j \<in> set (accept_pending organizationId email invs)"
  then obtain i where i: "i \<in> set invs"
    "j = (if i_organization_id i = organizationId
            \<and> i_invitee_email i = email \<and> i_status i = Pending
          then i\<lparr>i_status := Accepted\<rparr> else i)"
    unfolding accept_pending_def by (auto simp only: set_map image_iff)
  show ?thesis
  proof (cases "i_organization_id i = organizationId
        \<and> i_invitee_email i = email \<and> i_status i = Pending")
    case True
    with i have "i_token i = i_token j" "i_status i \<noteq> Accepted" "i_status j \<noteq> Pending"
      by simp_all
    with i(1) show ?thesis by blast
  next
    case False
    with i have "j = i" by simp
    with i(1) show ?thesis by blast
  qed
qed

lemma set_status_by_token_marks:
  "invitation \<in> set invs \<Longrightarrow> i_token invitation = token \<Longrightarrow>
   invitation\<lparr>i_status := st\<rparr> \<in> set (set_status_by_token token st invs)"
  by (force simp: set_status_by_token_def)

lemma accept_pending_keeps:
  "i \<in> set invs \<Longrightarrow> i_status i = Accepted \<Longrightarrow>
   i \<in> set (accept_pending organizationId email invs)"
  by (force simp: accept_pending_def)

text \<open>The example, computed: the newcomer accepts the invitation by its token.\<close>

lemma acme_invited_query:
  "single [i \<leftarrow> invitations acme_invited. i_token i = ''t1'' \<and> i_status i = Pending]
     = Some \<lparr>i_id = ''i1'', i_organization_id = ''o1'', i_inviter_id = ''u1'',
       i_invitee_email = ''n@x.com'', i_role = Viewer, i_status = Pending, i_token = ''t1'',
       i_expires_at = 100, i_created_at = 0\<rparr>"
  by (simp add: acme_invited_def single_def)

lemma acme_invited_not_member:
  "[m \<leftarrow> organization_members acme_invited.
      m_organization_id m = ''o1'' \<and> m_user_id m = ''u4''] = []"
  by (simp add: acme_invited_def acme_def)

lemma acme_joined_eq:
  "acceptInvitationByToken example_platform [] ''m4'' 10 newcomer_u ''t1'' acme_invited
     = (\<lparr>r_error = None, r_organizationId = Some ''o1''\<rparr>, acme_joined)"
  "invitations acme_joined =
     [\<lparr>i_id = ''i1'', i_organization_id = ''o1'', i_inviter_id = ''u1'',
       i_invitee_email = ''n@x.com'', i_role = Viewer, i_status = Accepted, i_token = ''t1'',
       i_expires_at = 100, i_created_at = 0\<rparr>]"
  "organization_members acme_joined = organization_members acme @
     [\<lparr>m_id = ''m4'', m_organization_id = ''o1'', m_user_id = ''u4'', m_role = Viewer\<rparr>]"
  "users acme_joined = users acme"
proof -
  let ?pending = "\<lparr>i_id = ''i1'', i_organization_id = ''o1'', i_inviter_id = ''u1'',
       i_invitee_email = ''n@x.com'', i_role = Viewer, i_status = Pending, i_token = ''t1'',
       i_expires_at = 100, i_created_at = 0\<rparr>"
  let ?accepted = "\<lparr>i_id = ''i1'', i_organization_id = ''o1'', i_inviter_id = ''u1'',
       i_invitee_email = ''n@x.com'', i_role = Viewer, i_status = Accepted, i_token = ''t1'',
       i_expires_at = 100, i_created_at = 0\<rparr>"
  have nr: "member_row acme_invited ''o1'' ''u4'' = None"
    by (simp add: member_row_def acme_invited_not_member single_def)
  have f0: "fault [] n = False" for n
    by (simp add: fault_def)
  have hit: "[i \<leftarrow> invitations acme_invited. i_token i = ''t1''] = [?pending]"
    by (simp add: acme_invited_def)
  have mk: "set_status_by_token ''t1'' Accepted (invitations acme_invited) = [?accepted]"
    by (simp add: acme_invited_def set_status_by_token_def)
  have sw: "accept_pending ''o1'' ''n@x.com'' [?accepted] = [?accepted]"
    by (simp add: accept_pending_def)
  have e: "acceptInvitationByToken example_platform [] ''m4'' 10 newcomer_u ''t1'' acme_invited
     = (\<lparr>r_error = None, r_organizationId = Some ''o1''\<rparr>,
        acme_invited\<lparr>organization_members := organization_members acme_invited @
            [\<lparr>m_id = ''m4'', m_organization_id = ''o1'', m_user_id = ''u4'',
              m_role = Viewer\<rparr>],
          invitations := [?accepted]\<rparr>)"
    by (simp add: acceptInvitationByToken_def newcomer_u_def acme_invited_query nr f0 hit mk
        sw Let_def)
  show "acceptInvitationByToken example_platform [] ''m4'' 10 newcomer_u ''t1'' acme_invited
     = (\<lparr>r_error = None, r_organizationId = Some ''o1''\<rparr>, acme_joined)"
    by (simp add: acme_joined_def e)
  show "invitations acme_joined = [?accepted]"
    by (simp add: acme_joined_def e)
  show "organization_members acme_joined = organization_members acme @
     [\<lparr>m_id = ''m4'', m_organization_id = ''o1'', m_user_id = ''u4'', m_role = Viewer\<rparr>]"
    by (simp add: acme_joined_def e) (simp add: acme_invited_def)
  show "users acme_joined = users acme"
    by (simp add: acme_joined_def e) (simp add: acme_invited_def)
qed

text \<open>
  C6, as stated, fails: the first call by token succeeds, and the second call with the same
  token returns the error \<open>Invitation not found or has already been used\<close>.
\<close>

theorem acceptInvitationByToken_twice_counterexample:
  "fst (acceptInvitationByToken example_platform [] ''m4'' 10 newcomer_u ''t1'' acme_invited)
     = \<lparr>r_error = None, r_organizationId = Some ''o1''\<rparr>
   \<and> fst (acceptInvitationByToken example_platform [] ''m5'' 11 newcomer_u ''t1'' acme_joined)
     = \<lparr>r_error = Some InvitationNotFoundOrUsed, r_organizationId = None\<rparr>"
  by (simp add: acme_joined_eq(1))
    (simp add: acceptInvitationByToken_def newcomer_u_def acme_joined_eq(2) single_def)

text \<open>
  C6, amended. For a pending, unexpired invitation addressed to the acting user, who has no
  membership in the organization, and when the insert and the marking write succeed:
  the first \<open>acceptInvitationByToken\<close> succeeds, creates the one membership of the
  (organization, user) pair and marks every invitation with that token accepted; every
  later call with the same token returns the error \<open>Invitation not found or has already
  been used\<close> and changes nothing, so there is still exactly one membership and no further
  invitation is touched.
\<close>

theorem acceptInvitationByToken_twice:
  assumes q: "single [i \<leftarrow> invitations d. i_token i = token \<and> i_status i = Pending]
              = Some invitation"
    and email: "a_email user = Some email" "email \<noteq> []"
    and same: "toLowerCase env (i_invitee_email invitation) = toLowerCase env email"
    and fresh: "\<not> i_expires_at invitation < now"
    and no_member: "[m \<leftarrow> organization_members d.
                      m_organization_id m = i_organization_id invitation
                      \<and> m_user_id m = a_id user] = []"
    and ok: "\<not> fault fs 0" "\<not> fault fs 1"
  shows "\<exists>d1. acceptInvitationByToken env fs new_member_id now user token d
               = (\<lparr>r_error = None,
                   r_organizationId = Some (i_organization_id invitation)\<rparr>, d1)
            \<and> acceptInvitationByToken env fs' new_member_id' now' user token d1
               = (\<lparr>r_error = Some InvitationNotFoundOrUsed, r_organizationId = None\<rparr>, d1)
            \<and> [m \<leftarrow> organization_members d1.
                  m_organization_id m = i_organization_id invitation
                  \<and> m_user_id m = a_id user]
               = [\<lparr>m_id = new_member_id,
                   m_organization_id = i_organization_id invitation,
                   m_user_id = a_id user, m_role = i_role invitation\<rparr>]
            \<and> invitation\<lparr>i_status := Accepted\<rparr> \<in> set (invitations d1)
            \<and> (\<forall>j \<in> set (invitations d1). i_token j = token \<longrightarrow> i_status j = Accepted)"
proof -
  let ?org = "i_organization_id invitation"
  let ?row = "\<lparr>m_id = new_member_id, m_organization_id = ?org,
               m_user_id = a_id user, m_role = i_role invitation\<rparr>"
  let ?marked = "set_status_by_token token Accepted (invitations d)"
  let ?invs1 = "if fault fs 2 then ?marked else accept_pending ?org email ?marked"
  define d1 where "d1 = d\<lparr>organization_members := organization_members d @ [?row],
                          invitations := ?invs1\<rparr>"
  note p = single_SomeD [OF q]
  have no_row: "member_row d ?org (a_id user) = None"
    by (simp add: member_row_def no_member single_def)
  have hit: "[i \<leftarrow> invitations d. i_token i = token] \<noteq> []"
    using p by (auto simp: filter_empty_conv)
  have first: "acceptInvitationByToken env fs new_member_id now user token d
               = (\<lparr>r_error = None, r_organizationId = Some ?org\<rparr>, d1)"
    using email same fresh ok hit
    by (simp add: acceptInvitationByToken_def q no_row Let_def d1_def)
  have marked: "invitation\<lparr>i_status := Accepted\<rparr> \<in> set ?marked"
    using p by (intro set_status_by_token_marks) simp_all
  have in1: "invitation\<lparr>i_status := Accepted\<rparr> \<in> set (invitations d1)"
    using marked by (simp add: d1_def accept_pending_keeps)
  have all_accepted: "i_status j = Accepted"
    if j: "j \<in> set (invitations d1)" and t: "i_token j = token" for j
  proof (cases "fault fs 2")
    case True
    with j have "j \<in> set ?marked" by (simp add: d1_def)
    then show ?thesis using t by (rule set_status_by_token_accepted)
  next
    case False
    with j have "j \<in> set (accept_pending ?org email ?marked)" by (simp add: d1_def)
    from accept_pending_keeps_accepted [OF this]
    obtain i where i: "i \<in> set ?marked" "i_token i = i_token j"
      "i_status i = Accepted \<longrightarrow> j = i"
      by blast
    from i(1) have "i_status i = Accepted"
      using i(2) t by (intro set_status_by_token_accepted) simp_all
    with i(3) show ?thesis by simp
  qed
  have none_pending: "[i \<leftarrow> invitations d1. i_token i = token \<and> i_status i = Pending] = []"
    using all_accepted by (auto simp: filter_empty_conv)
  have second: "acceptInvitationByToken env fs' new_member_id' now' user token d1
               = (\<lparr>r_error = Some InvitationNotFoundOrUsed, r_organizationId = None\<rparr>, d1)"
    using email by (simp add: acceptInvitationByToken_def none_pending single_def)
  have one: "[m \<leftarrow> organization_members d1.
                  m_organization_id m = ?org \<and> m_user_id m = a_id user] = [?row]"
    by (simp add: d1_def no_member)
  from first second one in1 all_accepted show ?thesis by blast
qed

theorem acceptInvitationByToken_twice_witness:
  "acceptInvitationByToken example_platform [] ''m4'' 10 newcomer_u ''t1'' acme_invited
     = (\<lparr>r_error = None, r_organizationId = Some ''o1''\<rparr>, acme_joined)
   \<and> acceptInvitationByToken example_platform [] ''m5'' 11 newcomer_u ''t1'' acme_joined
     = (\<lparr>r_error = Some InvitationNotFoundOrUsed, r_organizationId = None\<rparr>, acme_joined)
   \<and> [m \<leftarrow> organization_members acme_joined.
         m_organization_id m = ''o1'' \<and> m_user_id m = ''u4'']
     = [\<lparr>m_id = ''m4'', m_organization_id = ''o1'', m_user_id = ''u4'', m_role = Viewer\<rparr>]"
proof -
  let ?invitation = "\<lparr>i_id = ''i1'', i_organization_id = ''o1'', i_inviter_id = ''u1'',
       i_invitee_email = ''n@x.com'', i_role = Viewer, i_status = Pending, i_token = ''t1'',
       i_expires_at = 100, i_created_at = 0\<rparr>"
  have email: "a_email newcomer_u = Some ''n@x.com''" "''n@x.com'' \<noteq> []"
    by (simp_all add: newcomer_u_def)
  have same: "toLowerCase example_platform (i_invitee_email ?invitation)
              = toLowerCase example_platform ''n@x.com''" by simp
  have fresh: "\<not> i_expires_at ?invitation < 10" by simp
  have no_member: "[m \<leftarrow> organization_members acme_invited.
                      m_organization_id m = i_organization_id ?invitation
                      \<and> m_user_id m = a_id newcomer_u] = []"
    by (simp add: newcomer_u_def acme_invited_not_member)
  have ok: "\<not> fault [] 0" "\<not> fault [] 1" by (simp_all add: fault_def)
  from acceptInvitationByToken_twice
    [OF acme_invited_query email same fresh no_member ok, of "''m4''" "[]" "''m5''" 11]
  obtain d1 where
    a: "acceptInvitationByToken example_platform [] ''m4'' 10 newcomer_u ''t1'' acme_invited
          = (\<lparr>r_error = None, r_organizationId = Some (i_organization_id ?invitation)\<rparr>, d1)"
    and b: "acceptInvitationByToken example_platform [] ''m5'' 11 newcomer_u ''t1'' d1
          = (\<lparr>r_error = Some InvitationNotFoundOrUsed, r_organizationId = None\<rparr>, d1)"
    and c: "[m \<leftarrow> organization_members d1.
                  m_organization_id m = i_organization_id ?invitation
                  \<and> m_user_id m = a_id newcomer_u]
            = [\<lparr>m_id = ''m4'', m_organization_id = i_organization_id ?invitation,
                m_user_id = a_id newcomer_u, m_role = i_role ?invitation\<rparr>]"
    by blast
  have d1: "acme_joined = d1" by (simp add: acme_joined_def a)
  from a b c show ?thesis by (simp add: d1 newcomer_u_def)
qed

section \<open>Listing pending invitations after removal and re-invitation\<close>

text \<open>The example, computed: the newcomer has joined, is removed by the owner, and is
  invited again.\<close>

lemma acme_removed_eq:
  "removeMember [] owner_u ''o1'' ''m4'' acme_joined = (None, acme_removed)"
  "organization_members acme_removed = organization_members acme"
  "invitations acme_removed = invitations acme_joined"
  "users acme_removed = users acme"
proof -
  let ?m4 = "\<lparr>m_id = ''m4'', m_organization_id = ''o1'', m_user_id = ''u4'', m_role = Viewer\<rparr>"
  let ?accepted = "\<lparr>i_id = ''i1'', i_organization_id = ''o1'', i_inviter_id = ''u1'',
       i_invitee_email = ''n@x.com'', i_role = Viewer, i_status = Accepted, i_token = ''t1'',
       i_expires_at = 100, i_created_at = 0\<rparr>"
  have m: "isMember acme_joined (a_id owner_u) ''o1''"
    by (simp add: isMember_def member_row_def acme_joined_eq(3) owner_u_def acme_def
        single_def)
  have i: "member_by_id acme_joined ''m4'' ''o1'' = Some ?m4"
    by (simp add: member_by_id_def acme_joined_eq(3) acme_def single_def)
  have c: "canRemoveMember acme_joined (a_id owner_u) ''o1'' ''u4'' = Allow"
    by (simp add: canRemoveMember_def member_row_def acme_joined_eq(3) owner_u_def acme_def
        single_def)
  have u: "single [u \<leftarrow> users acme_joined. u_id u = ''u4'']
           = Some \<lparr>u_id = ''u4'', u_email = ''n@x.com''\<rparr>"
    by (simp add: acme_joined_eq(4) acme_def single_def)
  have del: "filter (\<lambda>m. m_id m = ''m4'' \<longrightarrow> m_organization_id m \<noteq> ''o1'')
               (organization_members acme_joined)
             = organization_members acme"
    by (simp add: acme_joined_eq(3) acme_def)
  have f0: "fault [] n = False" for n
    by (simp add: fault_def)
  have e: "removeMember [] owner_u ''o1'' ''m4'' acme_joined =
     (None, acme_joined\<lparr>organization_members := organization_members acme,
                         invitations := [?accepted]\<rparr>)"
    by (simp add: removeMember_def m i c u del f0 Let_def acme_joined_eq(2)
        protect_accepted_def)
  show "removeMember [] owner_u ''o1'' ''m4'' acme_joined = (None, acme_removed)"
    by (simp add: acme_removed_def e)
  show "organization_members acme_removed = organization_members acme"
    by (simp add: acme_removed_def e)
  show "invitations acme_removed = invitations acme_joined"
    by (simp add: acme_removed_def e acme_joined_eq(2))
  show "users acme_removed = users acme"
    by (simp add: acme_removed_def e acme_joined_eq(4))
qed

lemma reinvite_email:
  "trim example_platform (toLowerCase example_platform '' N@x.com '') = ''n@x.com''"
proof -
  have "ascii_trim (map ascii_lower_char '' N@x.com '') = ''n@x.com''"
    by code_simp
  then show ?thesis by (simp add: example_platform_def)
qed

lemma reinvite_expiry: "add_seven_days example_platform 20 = 604800020"
  by (simp add: example_platform_def utc_add_seven_days_def)

lemma acme_reinvited_eq:
  "inviteMember example_platform [] ''i2'' ''t2'' 20 owner_u ''o1'' reinvite_form
       acme_removed
     = (Inr ''i2'', acme_reinvited)"
  "organization_members acme_reinvited = organization_members acme"
  "invitations acme_reinvited =
     [\<lparr>i_id = ''i1'', i_organization_id = ''o1'', i_inviter_id = ''u1'',
       i_invitee_email = ''n@x.com'', i_role = Viewer, i_status = Accepted, i_token = ''t1'',
       i_expires_at = 100, i_created_at = 0\<rparr>,
      \<lparr>i_id = ''i2'', i_organization_id = ''o1'', i_inviter_id = ''u1'',
       i_invitee_email = ''n@x.com'', i_role = Viewer, i_status = Pending, i_token = ''t2'',
       i_expires_at = 604800020, i_created_at = 20\<rparr>]"
proof -
  let ?accepted = "\<lparr>i_id = ''i1'', i_organization_id = ''o1'', i_inviter_id = ''u1'',
       i_invitee_email = ''n@x.com'', i_role = Viewer, i_status = Accepted, i_token = ''t1'',
       i_expires_at = 100, i_created_at = 0\<rparr>"
  let ?new = "\<lparr>i_id = ''i2'', i_organization_id = ''o1'', i_inviter_id = ''u1'',
       i_invitee_email = ''n@x.com'', i_role = Viewer, i_status = Pending, i_token = ''t2'',
       i_expires_at = 604800020, i_created_at = 20\<rparr>"
  have can: "canInviteMembers acme_removed (a_id owner_u) ''o1''"
    by (simp add: canInviteMembers_def isAdminOrOwner_def acme_removed_eq(2) owner_u_def
        acme_def single_def)
  have row: "member_row acme_removed ''o1'' (a_id owner_u)
      = Some \<lparr>m_id = ''m1'', m_organization_id = ''o1'', m_user_id = ''u1'', m_role = Owner\<rparr>"
    by (simp add: member_row_def acme_removed_eq(2) owner_u_def acme_def single_def)
  have mem: "isMember acme_removed (a_id owner_u) ''o1''"
    by (simp add: isMember_def row)
  have role: "inviteMemberSchema_role (Some ''viewer'') = Some Viewer"
    by (simp add: inviteMemberSchema_role_def parse_role_def)
  have valid: "is_email example_platform ''n@x.com''"
    by (simp add: example_platform_def has_at_def)
  have usr: "single [u \<leftarrow> users acme_removed. u_email u = ''n@x.com'']
           = Some \<lparr>u_id = ''u4'', u_email = ''n@x.com''\<rparr>"
    by (simp add: acme_removed_eq(4) acme_def single_def)
  have nom: "member_row acme_removed ''o1'' ''u4'' = None"
    by (simp add: member_row_def acme_removed_eq(2) acme_def single_def)
  have nop: "single [i \<leftarrow> invitations acme_removed.
               i_organization_id i = ''o1'' \<and> i_invitee_email i = ''n@x.com''
               \<and> i_status i = Pending] = None"
    by (simp add: acme_removed_eq(3) acme_joined_eq(2) single_def)
  have f0: "fault [] n = False" for n
    by (simp add: fault_def)
  have e: "inviteMember example_platform [] ''i2'' ''t2'' 20 owner_u ''o1'' reinvite_form
       acme_removed
     = (Inr ''i2'', acme_removed\<lparr>invitations := [?accepted, ?new]\<rparr>)"
    by (simp add: inviteMember_def can mem reinvite_form_def reinvite_email valid role row
        usr nom nop f0 Let_def reinvite_expiry)
      (simp add: owner_u_def acme_removed_eq(3) acme_joined_eq(2))
  show "inviteMember example_platform [] ''i2'' ''t2'' 20 owner_u ''o1'' reinvite_form
       acme_removed
     = (Inr ''i2'', acme_reinvited)"
    by (simp add: acme_reinvited_def e)
  show "organization_members acme_reinvited = organization_members acme"
    by (simp add: acme_reinvited_def e acme_removed_eq(2))
  show "invitations acme_reinvited = [?accepted, ?new]"
    by (simp add: acme_reinvited_def e)
qed

lemma getPendingInvitations_subset:
  assumes "x \<in> set (getPendingInvitations now user d)"
  shows "x \<in> set (invitations d)"
proof (cases user)
  case None
  with assms show ?thesis by (simp add: getPendingInvitations_def)
next
  case (Some u)
  show ?thesis
  proof (cases "a_email u")
    case None
    with assms Some show ?thesis by (simp add: getPendingInvitations_def)
  next
    case (Some email)
    define data where "data = rev (sort_key i_created_at
      [i \<leftarrow> invitations d. i_invitee_email i = email \<and> i_status i = Pending
                            \<and> now < i_expires_at i])"
    have sd: "set data \<subseteq> set (invitations d)"
      by (simp add: data_def subset_iff)
    have "\<exists>P. getPendingInvitations now user d = [] \<or>
              getPendingInvitations now user d = filter P data"
    proof (cases "email = [] \<or> data = []")
      case True
      then have "getPendingInvitations now user d = []"
        using \<open>user = Some u\<close> Some
        by (auto simp: getPendingInvitations_def data_def Let_def)
      then show ?thesis by simp
    next
      case False
      then have "getPendingInvitations now user d =
          [x \<leftarrow> data.
            i_organization_id x \<notin> set (map m_organization_id
                [m \<leftarrow> organization_members d. m_user_id m = a_id u
                   \<and> m_organization_id m \<in> set (map i_organization_id data)])
            \<and> i_organization_id x \<notin> set (map i_organization_id
                [i \<leftarrow> invitations d. i_invitee_email i = email \<and> i_status i = Accepted
                   \<and> i_organization_id i \<in> set (map i_organization_id data)])]"
        using \<open>user = Some u\<close> Some
        by (simp add: getPendingInvitations_def data_def Let_def)
      then show ?thesis by blast
    qed
    then obtain P where "getPendingInvitations now user d = []
        \<or> getPendingInvitations now user d = filter P data"
      by blast
    with assms have "x \<in> set (filter P data)" by auto
    then have "x \<in> set data" by simp
    with sd show ?thesis by blast
  qed
qed

text \<open>
  C7, as stated, fails: after accepting, being removed and being invited again, the user
  has a new pending, unexpired invitation on record and no membership, and the listing is
  empty.
\<close>

theorem getPendingInvitations_reinvited_counterexample:
  "map i_status (invitations acme_reinvited) = [Accepted, Pending]
   \<and> map i_invitee_email (invitations acme_reinvited) = [''n@x.com'', ''n@x.com'']
   \<and> member_row acme_reinvited ''o1'' ''u4'' = None
   \<and> getPendingInvitations 30 (Some newcomer_u) acme_reinvited = []"
proof -
  have "member_row acme_reinvited ''o1'' ''u4'' = None"
    by (simp add: member_row_def acme_reinvited_eq(2) acme_def single_def)
  moreover have "getPendingInvitations 30 (Some newcomer_u) acme_reinvited = []"
    by (simp add: getPendingInvitations_def newcomer_u_def acme_reinvited_eq(3)
        Let_def)
  ultimately show ?thesis
    by (simp add: acme_reinvited_eq(3))
qed

text \<open>
  C7, amended. For every user with an accepted invitation to an organization on record
  (removal keeps it, so this is the state of a user who accepted, was removed and was
  invited again), \<open>getPendingInvitations\<close> returns pending invitations only, and none of
  that organization: the stale accepted invitation is excluded, and so is the new pending
  one.
\<close>

theorem getPendingInvitations_hides_reinvitation:
  assumes "a_email u = Some email"
    and "accepted \<in> set (invitations d)"
    and "i_invitee_email accepted = email"
    and "i_status accepted = Accepted"
  shows "\<forall>invitation \<in> set (getPendingInvitations now (Some u) d).
           i_status invitation = Pending
           \<and> i_organization_id invitation \<noteq> i_organization_id accepted"
proof
  fix invitation
  assume r: "invitation \<in> set (getPendingInvitations now (Some u) d)"
  define data where "data = rev (sort_key i_created_at
      [i \<leftarrow> invitations d. i_invitee_email i = email \<and> i_status i = Pending
                            \<and> now < i_expires_at i])"
  define acceptedOrgIds where "acceptedOrgIds = map i_organization_id
      [i \<leftarrow> invitations d. i_invitee_email i = email \<and> i_status i = Accepted
                            \<and> i_organization_id i \<in> set (map i_organization_id data)]"
  have sd: "set data = {i \<in> set (invitations d). i_invitee_email i = email
                           \<and> i_status i = Pending \<and> now < i_expires_at i}"
    by (simp add: data_def)
  have ne: "email \<noteq> []" "data \<noteq> []"
    using r assms(1)
    by (auto simp: getPendingInvitations_def data_def Let_def split: if_splits)
  have "getPendingInvitations now (Some u) d = [x \<leftarrow> data.
            i_organization_id x \<notin> set (map m_organization_id
                [m \<leftarrow> organization_members d. m_user_id m = a_id u
                   \<and> m_organization_id m \<in> set (map i_organization_id data)])
            \<and> i_organization_id x \<notin> set acceptedOrgIds]"
    using assms(1) ne
    by (simp add: getPendingInvitations_def data_def Let_def acceptedOrgIds_def)
  with r have "invitation \<in> set [x \<leftarrow> data.
            i_organization_id x \<notin> set (map m_organization_id
                [m \<leftarrow> organization_members d. m_user_id m = a_id u
                   \<and> m_organization_id m \<in> set (map i_organization_id data)])
            \<and> i_organization_id x \<notin> set acceptedOrgIds]"
    by (simp only:)
  then have in_data: "invitation \<in> set data"
    and not_acc: "i_organization_id invitation \<notin> set acceptedOrgIds"
    unfolding set_filter by blast+
  have pending: "i_status invitation = Pending"
    using in_data by (simp add: sd)
  have other: "i_organization_id invitation \<noteq> i_organization_id accepted"
  proof
    assume same: "i_organization_id invitation = i_organization_id accepted"
    have "i_organization_id invitation \<in> i_organization_id ` set data"
      using in_data by (rule imageI)
    then have "i_organization_id accepted \<in> set (map i_organization_id data)"
      using same by simp
    then have "accepted \<in> set [i \<leftarrow> invitations d. i_invitee_email i = email
          \<and> i_status i = Accepted
          \<and> i_organization_id i \<in> set (map i_organization_id data)]"
      using assms(2-4) by simp
    then have "i_organization_id accepted \<in> i_organization_id `
        set [i \<leftarrow> invitations d. i_invitee_email i = email
          \<and> i_status i = Accepted
          \<and> i_organization_id i \<in> set (map i_organization_id data)]"
      by (rule imageI)
    then have "i_organization_id accepted \<in> set acceptedOrgIds"
      by (simp only: acceptedOrgIds_def set_map)
    with not_acc same show False by simp
  qed
  from pending other show "i_status invitation = Pending
           \<and> i_organization_id invitation \<noteq> i_organization_id accepted"
    by simp
qed

theorem getPendingInvitations_hides_reinvitation_witness:
  "getPendingInvitations 30 (Some newcomer_u) acme_reinvited = []"
proof -
  let ?accepted = "\<lparr>i_id = ''i1'', i_organization_id = ''o1'', i_inviter_id = ''u1'',
       i_invitee_email = ''n@x.com'', i_role = Viewer, i_status = Accepted, i_token = ''t1'',
       i_expires_at = 100, i_created_at = 0\<rparr>"
  have a: "a_email newcomer_u = Some ''n@x.com''"
    by (simp add: newcomer_u_def)
  have b: "?accepted \<in> set (invitations acme_reinvited)"
    by (simp add: acme_reinvited_eq(3))
  have c: "i_invitee_email ?accepted = ''n@x.com''" "i_status ?accepted = Accepted"
    by simp_all
  have orgs: "i_organization_id invitation = ''o1''"
    if "invitation \<in> set (getPendingInvitations 30 (Some newcomer_u) acme_reinvited)"
    for invitation
  proof -
    from that have "invitation \<in> set (invitations acme_reinvited)"
      by (rule getPendingInvitations_subset)
    then have "invitation \<in> set (invitations acme_reinvited)
        \<and> (\<forall>i \<in> set (invitations acme_reinvited). i_organization_id i = ''o1'')"
      by (simp add: acme_reinvited_eq(3))
    then show ?thesis by blast
  qed
  from getPendingInvitations_hides_reinvitation [OF a b c, of 30]
  have "\<forall>invitation \<in> set (getPendingInvitations 30 (Some newcomer_u) acme_reinvited).
          i_organization_id invitation \<noteq> ''o1''"
    by simp
  then have none: "i_organization_id invitation \<noteq> ''o1''"
    if "invitation \<in> set (getPendingInvitations 30 (Some newcomer_u) acme_reinvited)"
    for invitation
    using that by simp
  show ?thesis
  proof (cases "getPendingInvitations 30 (Some newcomer_u) acme_reinvited")
    case Nil
    then show ?thesis .
  next
    case (Cons x xs)
    then have x: "x \<in> set (getPendingInvitations 30 (Some newcomer_u) acme_reinvited)"
      by simp
    from orgs [OF x] none [OF x] show ?thesis by simp
  qed
qed

section \<open>Accepted invitations stay accepted\<close>

lemma distinct_map_eq:
  "distinct (map f xs) \<Longrightarrow> x \<in> set xs \<Longrightarrow> y \<in> set xs \<Longrightarrow> f x = f y \<Longrightarrow> x = y"
  by (meson distinct_map inj_on_eq_iff)

lemma same_status: "i_status i = st \<Longrightarrow> i\<lparr>i_status := st\<rparr> = i"
  for i :: OrganizationInvitation
  by (cases i) simp

lemma in_map_fixed: "i \<in> set xs \<Longrightarrow> f i = i \<Longrightarrow> i \<in> set (map f xs)"
proof -
  assume "i \<in> set xs" and f: "f i = i"
  then have "f i \<in> f ` set xs" by (intro imageI)
  with f show ?thesis by simp
qed

lemma keep_by_id:
  "i \<in> set invs \<Longrightarrow> i_id i \<noteq> invitationId \<or> i_status i = st \<Longrightarrow>
   i \<in> set (set_status_by_id invitationId st invs)"
  unfolding set_status_by_id_def
  by (rule in_map_fixed) (auto simp: same_status)

lemma keep_by_token:
  "i \<in> set invs \<Longrightarrow> i_token i \<noteq> token \<or> i_status i = st \<Longrightarrow>
   i \<in> set (set_status_by_token token st invs)"
  unfolding set_status_by_token_def
  by (rule in_map_fixed) (auto simp: same_status)

lemma inviteMember_keeps:
  "i \<in> set (invitations d) \<Longrightarrow>
   i \<in> set (invitations
              (snd (inviteMember env fs new_id new_token now user organizationId
                      formData d)))"
  by (simp add: inviteMember_def Let_def split: option.splits)

lemma changeMemberRole_invitations:
  "invitations (snd (changeMemberRole fs user organizationId memberId formData d))
   = invitations d"
  by (simp add: changeMemberRole_def split: option.splits decision.splits)

lemma transferOwnership_invitations:
  "invitations (fst (snd (transferOwnership fs user organizationId newOwnerMemberId d)))
   = invitations d"
  by (simp add: transferOwnership_def Let_def split: option.splits decision.splits)

lemma protect_accepted_keeps:
  "i \<in> set invs \<Longrightarrow> i_status i = Accepted \<Longrightarrow>
   i \<in> set (protect_accepted organizationId email ids invs)"
  unfolding protect_accepted_def
  by (rule in_map_fixed) (auto simp: same_status)

lemma removeMember_keeps:
  assumes "i \<in> set (invitations d)" and "i_status i = Accepted"
  shows "i \<in> set (invitations (snd (removeMember fs user organizationId memberId d)))"
  by (simp add: removeMember_def Let_def assms protect_accepted_keeps
      split: option.splits decision.splits)

lemma acceptInvitation_keeps:
  assumes "distinct (map i_id (invitations d))"
    and "i \<in> set (invitations d)" and "i_status i = Accepted"
  shows "i \<in> set (invitations (snd (acceptInvitation fs new_member_id now user invitationId d)))"
proof (cases "a_email user")
  case None
  then show ?thesis by (simp add: acceptInvitation_def assms(2))
next
  case (Some email)
  show ?thesis
  proof (cases "single [x \<leftarrow> invitations d. i_id x = invitationId \<and> i_invitee_email x = email
                                         \<and> i_status x = Pending]")
    case None
    then show ?thesis by (simp add: acceptInvitation_def Some assms(2))
  next
    case (Some found)
    note p = single_SomeD [OF Some]
    have ne: "i_id i \<noteq> invitationId"
    proof
      assume "i_id i = invitationId"
      then have "i = found"
        using distinct_map_eq [OF assms(1) assms(2) p(1)] p(2) by simp
      with p(2) assms(3) show False by simp
    qed
    have k1: "i \<in> set (set_status_by_id invitationId st (invitations d))" for st
      using assms(2) ne by (intro keep_by_id) simp_all
    have k2: "i \<in> set (accept_pending organizationId e
                          (set_status_by_id invitationId st (invitations d)))"
      for organizationId e st
      using k1 assms(3) by (rule accept_pending_keeps)
    have k3: "i \<in> set (accept_pending organizationId e (invitations d))"
      for organizationId e
      using assms(2,3) by (rule accept_pending_keeps)
    show ?thesis
      by (simp add: acceptInvitation_def \<open>a_email user = Some email\<close> Some Let_def
          k1 k2 k3 assms(2))
  qed
qed

lemma acceptInvitationByToken_keeps:
  assumes "distinct (map i_token (invitations d))"
    and "i \<in> set (invitations d)" and "i_status i = Accepted"
  shows "i \<in> set (invitations (snd (acceptInvitationByToken env fs new_member_id now user token d)))"
proof (cases "a_email user")
  case None
  then show ?thesis by (simp add: acceptInvitationByToken_def assms(2))
next
  case (Some email)
  show ?thesis
  proof (cases "single [x \<leftarrow> invitations d. i_token x = token \<and> i_status x = Pending]")
    case None
    then show ?thesis by (simp add: acceptInvitationByToken_def Some assms(2))
  next
    case (Some found)
    note p = single_SomeD [OF Some]
    have ne: "i_token i \<noteq> token"
    proof
      assume "i_token i = token"
      then have "i = found"
        using distinct_map_eq [OF assms(1) assms(2) p(1)] p(2) by simp
      with p(2) assms(3) show False by simp
    qed
    have k1: "i \<in> set (set_status_by_token token st (invitations d))" for st
      using assms(2) ne by (intro keep_by_token) simp_all
    have k2: "i \<in> set (accept_pending organizationId e
                          (set_status_by_token token st (invitations d)))"
      for organizationId e st
      using k1 assms(3) by (rule accept_pending_keeps)
    have k3: "i \<in> set (accept_pending organizationId e (invitations d))"
      for organizationId e
      using assms(2,3) by (rule accept_pending_keeps)
    show ?thesis
      by (simp add: acceptInvitationByToken_def \<open>a_email user = Some email\<close> Some Let_def
          k1 k2 k3 assms(2))
  qed
qed

lemma declineInvitation_keeps:
  assumes "distinct (map i_id (invitations d))"
    and "i \<in> set (invitations d)" and "i_status i = Accepted"
  shows "i \<in> set (invitations (snd (declineInvitation fs user invitationId d)))"
proof (cases "a_email user")
  case None
  then show ?thesis by (simp add: declineInvitation_def assms(2))
next
  case (Some email)
  show ?thesis
  proof (cases "single [x \<leftarrow> invitations d. i_id x = invitationId \<and> i_invitee_email x = email
                                         \<and> i_status x = Pending]")
    case None
    then show ?thesis by (simp add: declineInvitation_def Some assms(2))
  next
    case (Some found)
    note p = single_SomeD [OF Some]
    have ne: "i_id i \<noteq> invitationId"
    proof
      assume "i_id i = invitationId"
      then have "i = found"
        using distinct_map_eq [OF assms(1) assms(2) p(1)] p(2) by simp
      with p(2) assms(3) show False by simp
    qed
    have k1: "i \<in> set (set_status_by_id invitationId st (invitations d))" for st
      using assms(2) ne by (intro keep_by_id) simp_all
    show ?thesis
      by (simp add: declineInvitation_def \<open>a_email user = Some email\<close> Some k1 assms(2))
  qed
qed

lemma cancelInvitation_keeps:
  assumes "distinct (map i_id (invitations d))"
    and "i \<in> set (invitations d)" and "i_status i = Accepted"
  shows "i \<in> set (invitations (snd (cancelInvitation fs user organizationId invitationId d)))"
proof (cases "single [x \<leftarrow> invitations d. i_id x = invitationId
                         \<and> i_organization_id x = organizationId \<and> i_status x = Pending]")
  case None
  then show ?thesis by (simp add: cancelInvitation_def assms(2))
next
  case (Some found)
  note p = single_SomeD [OF Some]
  have ne: "i_id i \<noteq> invitationId"
  proof
    assume "i_id i = invitationId"
    then have "i = found"
      using distinct_map_eq [OF assms(1) assms(2) p(1)] p(2) by simp
    with p(2) assms(3) show False by simp
  qed
  have k1: "i \<in> set (set_status_by_id invitationId st (invitations d))" for st
    using assms(2) ne by (intro keep_by_id) simp_all
  show ?thesis
    by (simp add: cancelInvitation_def Some k1 assms(2) split: option.splits)
qed

text \<open>
  C8. Invitation ids and tokens are unique (the primary key and the unique token column).
  Whatever action of the member and invitation modules runs next, with whatever
  arguments and whatever outcome of its writes, an invitation that is accepted is in the
  invitations table afterwards, unchanged: \<open>accepted\<close> is never left. The action may be
  \<open>removeMember\<close>: removing the membership that the acceptance created leaves the
  accepted invitation accepted.
\<close>

theorem accepted_is_terminal:
  assumes "distinct (map i_id (invitations d))"
    and "distinct (map i_token (invitations d))"
    and "i \<in> set (invitations d)" and "i_status i = Accepted"
  shows "i \<in> set (invitations (step env fs a d))
         \<and> i \<in> set (invitations (snd (removeMember fs user organizationId memberId d)))"
proof -
  have "i \<in> set (invitations (step env fs a d))"
  proof (cases a)
    case (InviteMember new_id new_token now u organizationId formData)
    then show ?thesis using assms(3) by (simp add: inviteMember_keeps)
  next
    case (ChangeMemberRole u organizationId memberId formData)
    then show ?thesis using assms(3) by (simp add: changeMemberRole_invitations)
  next
    case (RemoveMember u organizationId memberId)
    then show ?thesis using assms(3,4) by (simp add: removeMember_keeps)
  next
    case (TransferOwnership u organizationId newOwnerMemberId)
    then show ?thesis using assms(3) by (simp add: transferOwnership_invitations)
  next
    case (AcceptInvitation new_member_id now u invitationId)
    then show ?thesis using assms(1,3,4) by (simp add: acceptInvitation_keeps)
  next
    case (AcceptInvitationByToken new_member_id now u token)
    then show ?thesis using assms(2,3,4) by (simp add: acceptInvitationByToken_keeps)
  next
    case (DeclineInvitation u invitationId)
    then show ?thesis using assms(1,3,4) by (simp add: declineInvitation_keeps)
  next
    case (CancelInvitation u organizationId invitationId)
    then show ?thesis using assms(1,3,4) by (simp add: cancelInvitation_keeps)
  qed
  moreover have "i \<in> set (invitations (snd (removeMember fs user organizationId memberId d)))"
    using assms(3,4) by (rule removeMember_keeps)
  ultimately show ?thesis by simp
qed

theorem accepted_is_terminal_witness:
  "invitations acme_removed =
     [\<lparr>i_id = ''i1'', i_organization_id = ''o1'', i_inviter_id = ''u1'',
       i_invitee_email = ''n@x.com'', i_role = Viewer, i_status = Accepted, i_token = ''t1'',
       i_expires_at = 100, i_created_at = 0\<rparr>]
   \<and> \<lparr>i_id = ''i1'', i_organization_id = ''o1'', i_inviter_id = ''u1'',
       i_invitee_email = ''n@x.com'', i_role = Viewer, i_status = Accepted, i_token = ''t1'',
       i_expires_at = 100, i_created_at = 0\<rparr>
     \<in> set (invitations (step example_platform [] (RemoveMember owner_u ''o1'' ''m4'') acme_joined))"
proof -
  let ?accepted = "\<lparr>i_id = ''i1'', i_organization_id = ''o1'', i_inviter_id = ''u1'',
       i_invitee_email = ''n@x.com'', i_role = Viewer, i_status = Accepted, i_token = ''t1'',
       i_expires_at = 100, i_created_at = 0\<rparr>"
  have a: "distinct (map i_id (invitations acme_joined))"
    "distinct (map i_token (invitations acme_joined))"
    "?accepted \<in> set (invitations acme_joined)" "i_status ?accepted = Accepted"
    by (simp_all add: acme_joined_eq(2))
  from accepted_is_terminal [OF a, of example_platform "[]" "RemoveMember owner_u ''o1'' ''m4''"]
  show ?thesis
    by (simp add: acme_removed_eq(3) acme_joined_eq(2))
qed

section \<open>Invitations are stored under the normalised e-mail\<close>

text \<open>
  C10. Whenever \<open>inviteMember\<close> creates an invitation, the form carried an e-mail, and the
  row appended to the invitations table stores that e-mail lowercased and then trimmed,
  the value that passed the e-mail check. The invitation is pending, has the generated id
  and token, and expires seven calendar days later. The e-mail enters the action through
  this normal form only: a form with the same role and any e-mail of the same normal form
  has the same outcome, so invitations are keyed without regard to case from their
  creation. Accepting by invitation id compares the stored value with the acting user's
  e-mail exactly: with a fresh id, the invitation is found when the two are the same
  string, and for any other e-mail the user is told that the invitation was not found, and
  nothing changes.
\<close>

theorem inviteMember_stores_normalised_email:
  assumes "inviteMember env fs new_id new_token now user organizationId formData d
           = (Inr invitationId, d')"
  shows "\<exists>email role.
           fd_email formData = Some email
         \<and> is_email env (trim env (toLowerCase env email))
         \<and> invitationId = new_id
         \<and> d' = d\<lparr>invitations := invitations d @
                   [\<lparr>i_id = new_id, i_organization_id = organizationId,
                     i_inviter_id = a_id user,
                     i_invitee_email = trim env (toLowerCase env email),
                     i_role = role, i_status = Pending, i_token = new_token,
                     i_expires_at = add_seven_days env now, i_created_at = now\<rparr>]\<rparr>
         \<and> (\<forall>formData2 email2.
               fd_email formData2 = Some email2 \<and> fd_role formData2 = fd_role formData
               \<and> trim env (toLowerCase env email2) = trim env (toLowerCase env email) \<longrightarrow>
               inviteMember env fs new_id new_token now user organizationId formData2 d
               = (Inr invitationId, d'))
         \<and> (\<forall>u e fs' new_member_id now'.
               a_email u = Some e \<and> e \<noteq> []
               \<and> new_id \<notin> set (map i_id (invitations d)) \<longrightarrow>
               (r_error (fst (acceptInvitation fs' new_member_id now' u new_id d'))
                  = Some InvitationNotFoundOrExpired
                \<longleftrightarrow> e \<noteq> trim env (toLowerCase env email))
               \<and> (e \<noteq> trim env (toLowerCase env email) \<longrightarrow>
                    acceptInvitation fs' new_member_id now' u new_id d'
                    = (\<lparr>r_error = Some InvitationNotFoundOrExpired,
                        r_organizationId = None\<rparr>, d')))"
proof (cases "fd_email formData")
  case None
  with assms show ?thesis
    by (simp add: inviteMember_def split: if_splits)
next
  case (Some email)
  let ?e = "trim env (toLowerCase env email)"
  show ?thesis
  proof (cases "inviteMemberSchema_role (fd_role formData)")
    case None
    with assms Some show ?thesis
      by (simp add: inviteMember_def Let_def split: if_splits)
  next
    case (Some role)
    let ?row = "\<lparr>i_id = new_id, i_organization_id = organizationId,
                     i_inviter_id = a_id user, i_invitee_email = ?e,
                     i_role = role, i_status = Pending, i_token = new_token,
                     i_expires_at = add_seven_days env now, i_created_at = now\<rparr>"
    have r: "is_email env ?e" "invitationId = new_id"
      "d' = d\<lparr>invitations := invitations d @ [?row]\<rparr>"
      using assms \<open>fd_email formData = Some email\<close> Some
      by (auto simp: inviteMember_def Let_def split: if_splits)
    have keyed: "inviteMember env fs new_id new_token now user organizationId formData2 d
               = (Inr invitationId, d')"
      if f2: "fd_email formData2 = Some email2" "fd_role formData2 = fd_role formData"
        "trim env (toLowerCase env email2) = ?e"
      for formData2 email2
    proof -
      have "inviteMember env fs new_id new_token now user organizationId formData2 d
            = inviteMember env fs new_id new_token now user organizationId formData d"
        by (simp add: inviteMember_def Let_def f2 \<open>fd_email formData = Some email\<close>)
      with assms show ?thesis by simp
    qed
    have exact: "(r_error (fst (acceptInvitation fs' new_member_id now' u new_id d'))
                  = Some InvitationNotFoundOrExpired \<longleftrightarrow> e \<noteq> ?e)
               \<and> (e \<noteq> ?e \<longrightarrow>
                    acceptInvitation fs' new_member_id now' u new_id d'
                    = (\<lparr>r_error = Some InvitationNotFoundOrExpired,
                        r_organizationId = None\<rparr>, d'))"
      if u: "a_email u = Some e" "e \<noteq> []"
        and fresh: "new_id \<notin> set (map i_id (invitations d))"
      for u e fs' new_member_id now'
    proof -
      have old: "[i \<leftarrow> invitations d. i_id i = new_id \<and> i_invitee_email i = e
                                   \<and> i_status i = Pending] = []"
        using fresh by (auto simp: filter_empty_conv)
      show ?thesis
      proof (cases "e = ?e")
        case True
        have "[i \<leftarrow> invitations d'. i_id i = new_id \<and> i_invitee_email i = e
                                   \<and> i_status i = Pending] = [?row]"
          using old True by (simp add: r(3))
        then have q: "single [i \<leftarrow> invitations d'. i_id i = new_id \<and> i_invitee_email i = e
                                   \<and> i_status i = Pending] = Some ?row"
          by (simp add: single_def)
        have "r_error (fst (acceptInvitation fs' new_member_id now' u new_id d'))
              \<noteq> Some InvitationNotFoundOrExpired"
          using u by (simp add: acceptInvitation_def q Let_def)
        with True show ?thesis by simp
      next
        case False
        have "[i \<leftarrow> invitations d'. i_id i = new_id \<and> i_invitee_email i = e
                                   \<and> i_status i = Pending] = []"
          using old False by (simp add: r(3))
        then have "acceptInvitation fs' new_member_id now' u new_id d'
                    = (\<lparr>r_error = Some InvitationNotFoundOrExpired,
                        r_organizationId = None\<rparr>, d')"
          using u by (simp add: acceptInvitation_def single_def)
        with False show ?thesis by simp
      qed
    qed
    from \<open>fd_email formData = Some email\<close> r keyed exact show ?thesis
      by blast
  qed
qed

theorem inviteMember_stores_normalised_email_witness:
  "inviteMember example_platform [] ''i2'' ''t2'' 20 owner_u ''o1'' reinvite_form
       acme_removed
     = (Inr ''i2'', acme_reinvited)
   \<and> fd_email reinvite_form = Some '' N@x.com ''
   \<and> i_invitee_email (last (invitations acme_reinvited)) = ''n@x.com''"
proof -
  from inviteMember_stores_normalised_email [OF acme_reinvited_eq(1)]
  obtain email role where
    e: "fd_email reinvite_form = Some email"
    and d: "acme_reinvited = acme_removed\<lparr>invitations := invitations acme_removed @
                   [\<lparr>i_id = ''i2'', i_organization_id = ''o1'',
                     i_inviter_id = a_id owner_u,
                     i_invitee_email =
                       trim example_platform (toLowerCase example_platform email),
                     i_role = role, i_status = Pending, i_token = ''t2'',
                     i_expires_at = add_seven_days example_platform 20,
                     i_created_at = 20\<rparr>]\<rparr>"
    by blast
  from e have email: "email = '' N@x.com ''"
    by (simp add: reinvite_form_def)
  have "i_invitee_email (last (invitations acme_reinvited))
        = trim example_platform (toLowerCase example_platform email)"
    by (subst d) simp
  with email have "i_invitee_email (last (invitations acme_reinvited)) = ''n@x.com''"
    by (simp only: reinvite_email)
  moreover have "fd_email reinvite_form = Some '' N@x.com ''"
    by (simp add: reinvite_form_def)
  ultimately show ?thesis
    by (simp add: acme_reinvited_eq(1))
qed

end
